theory Spec2Isabelle
  imports Complex_Main "HOL-Library.Word"
begin

section \<open>JavaScript values\<close>

text \<open>
  A JavaScript string is a sequence of UTF-16 code units, and a regular expression
  without the \<^verbatim>\<open>u\<close> flag matches code unit by code unit. Every character of the
  character class of \<^verbatim>\<open>languageRegex\<close> lies in the Basic Multilingual Plane, so
  a code unit is a 16-bit word. String literals of the source are ASCII and are
  written through \<open>ascii\<close>.
\<close>

type_synonym code_unit = "16 word"
type_synonym jsstring = "code_unit list"

definition ascii :: "string \<Rightarrow> jsstring" where
  "ascii s = map of_char s"

text \<open>
  The values a field of a parsed JSON body can hold (\<^verbatim>\<open>express.json()\<close>), and
  \<open>JUndefined\<close> for a field the body does not have. A number is a double: finite
  (rational), an infinity (\<^verbatim>\<open>JSON.parse("1e999")\<close>) or NaN.
\<close>

datatype jsnum = Fin rat | Inf bool | NaN

datatype jsval =
    JUndefined
  | JNull
  | JBool bool
  | JNum jsnum
  | JStr jsstring
  | JArr "jsval list"
  | JObj "(jsstring \<times> jsval) list"

text \<open>
  ToBoolean: \<^verbatim>\<open>undefined\<close>, \<^verbatim>\<open>null\<close>, \<^verbatim>\<open>false\<close>, \<^verbatim>\<open>0\<close>, \<^verbatim>\<open>NaN\<close> and
  the empty string are falsy, every other value is truthy. It decides \<^verbatim>\<open>!name\<close>,
  \<^verbatim>\<open>!number\<close> and \<^verbatim>\<open>twoNames ? 180 : -35\<close>.
\<close>

fun js_truthy :: "jsval \<Rightarrow> bool" where
  "js_truthy JUndefined = False"
| "js_truthy JNull = False"
| "js_truthy (JBool b) = b"
| "js_truthy (JNum (Fin x)) = (x \<noteq> 0)"
| "js_truthy (JNum (Inf s)) = True"
| "js_truthy (JNum NaN) = False"
| "js_truthy (JStr s) = (s \<noteq> [])"
| "js_truthy (JArr xs) = True"
| "js_truthy (JObj kvs) = True"

section \<open>Script Classifier\<close>

text \<open>
  \<^verbatim>\<open>const languageRegex = /^[a-zA-Z\s<accented letters>\s]+$/;\<close>

  The class holds the ranges \<^verbatim>\<open>a-z\<close> and \<^verbatim>\<open>A-Z\<close>, the escape \<^verbatim>\<open>\s\<close> (twice)
  and 64 literal letters of the Latin-1 Supplement, listed in \<open>accented\<close> in the
  order of the source (the letters a, o, u with diaeresis occur twice).
\<close>

datatype class_item = Range code_unit code_unit | Lit code_unit | Space

text \<open>
  \<^verbatim>\<open>\s\<close> is WhiteSpace or LineTerminator of ECMAScript: TAB, LF, VT, FF, CR, space,
  NBSP, U+1680, U+2000 to U+200A, U+2028, U+2029, U+202F, U+205F, U+3000 and U+FEFF.
\<close>

definition js_space :: "code_unit \<Rightarrow> bool" where
  "js_space c =
     (c \<in> set [0x09, 0x0A, 0x0B, 0x0C, 0x0D, 0x20, 0xA0, 0x1680,
                0x2028, 0x2029, 0x202F, 0x205F, 0x3000, 0xFEFF]
      \<or> (0x2000 \<le> c \<and> c \<le> 0x200A))"

definition accented :: "code_unit list" where
  "accented =
     [0xE4, 0xF6, 0xFC, 0xC4, 0xD6, 0xDC, 0xDF,
      0xE0, 0xE1, 0xE2, 0xE3, 0xE4, 0xE5, 0xE7, 0xE8, 0xE9, 0xEA, 0xEB,
      0xEC, 0xED, 0xEE, 0xEF, 0xF0, 0xF1, 0xF2, 0xF3, 0xF4, 0xF5, 0xF6,
      0xF8, 0xF9, 0xFA, 0xFB, 0xFC, 0xFD, 0xFF,
      0xC0, 0xC1, 0xC2, 0xC3, 0xC4, 0xC5, 0xC7, 0xC8, 0xC9, 0xCA, 0xCB,
      0xCC, 0xCD, 0xCE, 0xCF, 0xD0, 0xD1, 0xD2, 0xD3, 0xD4, 0xD5, 0xD6,
      0xD8, 0xD9, 0xDA, 0xDB, 0xDC, 0xDD]"

definition languageRegex_class :: "class_item list" where
  "languageRegex_class =
     [Range 0x61 0x7A, Range 0x41 0x5A, Space] @ map Lit accented @ [Space]"

fun item_matches :: "class_item \<Rightarrow> code_unit \<Rightarrow> bool" where
  "item_matches (Range lo hi) c = (lo \<le> c \<and> c \<le> hi)"
| "item_matches (Lit x) c = (c = x)"
| "item_matches Space c = js_space c"

definition in_class :: "code_unit \<Rightarrow> bool" where
  "in_class c = list_ex (\<lambda>i. item_matches i c) languageRegex_class"

text \<open>
  \<^verbatim>\<open>[...]+$\<close> from the current position: one character of the class, then either
  the end of the input or the same again. The regular expression has no \<^verbatim>\<open>m\<close>
  flag, so \<^verbatim>\<open>$\<close> is the end of the input only.
\<close>

fun class_plus_end :: "jsstring \<Rightarrow> bool" where
  "class_plus_end [] = False"
| "class_plus_end (c # cs) = (in_class c \<and> (cs = [] \<or> class_plus_end cs))"

text \<open>\<^verbatim>\<open>languageRegex.test(s)\<close> on a string: \<^verbatim>\<open>^\<close> fixes the start at position 0.\<close>

definition languageRegex_test :: "jsstring \<Rightarrow> bool" where
  "languageRegex_test s = class_plus_end s"

subsection \<open>The classification in the words of the specification\<close>

text \<open>
  The designated Latin letter set: A to Z, a to z and the accented letters of the class.
  A character is admitted when it is such a letter or whitespace.
\<close>

definition designated_letter :: "code_unit \<Rightarrow> bool" where
  "designated_letter c =
     ((0x41 \<le> c \<and> c \<le> 0x5A) \<or> (0x61 \<le> c \<and> c \<le> 0x7A) \<or> c \<in> set accented)"

definition admitted :: "code_unit \<Rightarrow> bool" where
  "admitted c = (designated_letter c \<or> js_space c)"

definition all_admitted :: "jsstring \<Rightarrow> bool" where
  "all_admitted s = list_all admitted s"

definition all_space :: "jsstring \<Rightarrow> bool" where
  "all_space s = list_all js_space s"

section \<open>State, environment and responses\<close>

text \<open>
  A document of the collection \<^verbatim>\<open>Card\<close>: the identifier MongoDB keeps in \<^verbatim>\<open>_id\<close>
  (an ObjectId, 12 bytes) and the three paths of the schema, each of type String.
\<close>

type_synonym objectid = "96 word"

record card =
  card_id :: objectid
  card_name :: jsstring
  card_number :: jsstring
  card_imagePath :: jsstring

text \<open>
  The drawing surface when \<^verbatim>\<open>canvas.toBuffer()\<close> is called: its size, the context's
  properties and the arguments of the one \<^verbatim>\<open>fillText\<close> call. The encoded buffer is
  identified with the surface it encodes. Coordinates are JavaScript numbers; halves
  of integers and the offsets 50, 180 and 35 are exact in binary64 for every size a
  canvas can have, so they are rationals here.
\<close>

record surface =
  width :: nat
  height :: nat
  font :: jsstring
  fillStyle :: jsstring
  textAlign :: jsstring
  textBaseline :: jsstring
  fillText_text :: jsval
  fillText_x :: rat
  fillText_y :: rat

text \<open>
  The state the handlers share: the objects of the storage bucket by path, the
  collection by identifier, and (a history variable) the signed URLs the storage
  service has issued, each with the path of the object it was issued for.
\<close>

record world =
  bucket :: "jsstring \<rightharpoonup> surface"
  issued :: "(jsstring \<times> jsstring) list"
  cards :: "objectid \<rightharpoonup> card"

text \<open>
  What the libraries and services answer during one request. None of it is code of the
  repository, so it is a parameter of every handler:
  \<^item> \<open>toString_other\<close>: ToString of a number, an array or an object;
  \<^item> \<open>cast_other\<close>: Mongoose's cast to String of a boolean, a number, an array or an
    object (\<open>None\<close> when the cast fails);
  \<^item> \<open>parse_oid\<close>: the store's reading of a string as an ObjectId, \<open>None\<close> for a
    malformed identifier; \<^verbatim>\<open>mongoose.Types.ObjectId.isValid\<close> and the cast of
    \<^verbatim>\<open>findById\<close> and \<^verbatim>\<open>findByIdAndDelete\<close> both go through it;
  \<^item> \<open>cast_error\<close>: the message of the CastError raised for a malformed identifier;
  \<^item> \<open>template\<close>: width and height of the image \<^verbatim>\<open>loadImage\<close> returns, \<open>None\<close>
    when it rejects;
  \<^item> \<open>draws\<close>: the drawing calls and \<^verbatim>\<open>canvas.toBuffer()\<close> return;
  \<^item> \<open>now\<close>: \<^verbatim>\<open>new Date().getTime()\<close>;
  \<^item> \<open>save_file\<close>: \<^verbatim>\<open>file.save\<close> resolves;
  \<^item> \<open>signed_url\<close>: the first element of what \<^verbatim>\<open>file.getSignedUrl\<close> resolves
    to, \<open>None\<close> when it rejects;
  \<^item> \<open>db_error\<close>: the message of the error the database operation rejects with,
    \<open>None\<close> when the database performs it;
  \<^item> \<open>new_oid\<close>: the identifier generated for a new document;
  \<^item> \<open>axios_get\<close>: the rejection message, or status, data and status text of the
    response;
  \<^item> \<open>encodeURIComponent\<close>: the message of the URIError, or the encoded string.
\<close>

record env =
  toString_other :: "jsval \<Rightarrow> jsstring"
  cast_other :: "jsval \<Rightarrow> jsstring option"
  parse_oid :: "jsstring \<Rightarrow> objectid option"
  cast_error :: "jsstring \<Rightarrow> jsstring"
  template :: "(nat \<times> nat) option"
  draws :: bool
  now :: nat
  save_file :: bool
  signed_url :: "jsstring option"
  db_error :: "jsstring option"
  new_oid :: objectid
  axios_get :: "jsstring \<Rightarrow> jsstring + (nat \<times> 8 word list \<times> jsstring)"
  encodeURIComponent :: "jsstring \<Rightarrow> jsstring + jsstring"

text \<open>The body of a POST /fill-image request after destructuring.\<close>

record request =
  name :: jsval
  number :: jsval
  twoNames :: jsval

text \<open>
  What a handler sends: \<^verbatim>\<open>{status, message}\<close>, \<^verbatim>\<open>{card}\<close>,
  \<^verbatim>\<open>{status, message, deletedSample}\<close>, a text, or a buffer with the headers set.
\<close>

datatype content =
    Json_status_message jsstring jsstring
  | Json_card card
  | Json_deleted jsstring jsstring card
  | Text jsstring
  | Binary "(jsstring \<times> jsstring) list" "8 word list"

record response =
  status :: nat
  content :: content

text \<open>The effects of one request on the services, in the order they happen.\<close>

datatype effect =
    Composed surface
  | Uploaded jsstring surface
  | Signed jsstring jsstring
  | Inserted card
  | Removed card

text \<open>The step of the fill-image workflow that threw.\<close>

datatype failure =
    LoadFailed | RenderFailed | UploadFailed | SignFailed | ValidationFailed | StoreFailed

section \<open>Image Compositor\<close>

text \<open>ToString, applied by \<^verbatim>\<open>RegExp.prototype.test\<close> to its argument.\<close>

fun ToString :: "env \<Rightarrow> jsval \<Rightarrow> jsstring" where
  "ToString e (JStr s) = s"
| "ToString e JUndefined = ascii ''undefined''"
| "ToString e JNull = ascii ''null''"
| "ToString e (JBool b) = ascii (if b then ''true'' else ''false'')"
| "ToString e v = toString_other e v"

text \<open>
  \<^verbatim>\<open>
  const canvas = createCanvas(template.width, template.height);
  ...
  let englishText = false;
  if (languageRegex.test(name)) { englishText = true; }
  ctx.font = englishText ? '26px EnglishFont' : '26px ArabicFont';
  ctx.fillStyle = '#7d5438';
  ctx.textAlign = 'center';
  ctx.textBaseline = 'middle';
  ctx.fillText(name, ((canvas.width / 2) - 50), (canvas.height / 2) - (twoNames ? 180 : -35));
  \<close>
\<close>

definition compose :: "env \<Rightarrow> nat \<Rightarrow> nat \<Rightarrow> jsval \<Rightarrow> jsval \<Rightarrow> surface" where
  "compose e w h nm two =
     (let englishText = languageRegex_test (ToString e nm) in
      \<lparr> width = w, height = h,
        font = (if englishText then ascii ''26px EnglishFont'' else ascii ''26px ArabicFont''),
        fillStyle = ascii ''#7d5438'',
        textAlign = ascii ''center'',
        textBaseline = ascii ''middle'',
        fillText_text = nm,
        fillText_x = (of_nat w / 2) - 50,
        fillText_y = (of_nat h / 2) - (if js_truthy two then 180 else - 35) \<rparr>)"

section \<open>Object Store Gateway\<close>

text \<open>The decimal digits of a timestamp, as a template literal prints it.\<close>

function decimal :: "nat \<Rightarrow> jsstring" where
  "decimal n = (if n < 10 then [0x30 + of_nat n] else decimal (n div 10) @ [0x30 + of_nat (n mod 10)])"
  by pat_completeness auto
termination
  by (relation "measure id") auto

text \<open>\<^verbatim>\<open>const fileName = `hedayat/${new Date().getTime()}_edited-image.jpg`;\<close>\<close>

definition fileName :: "nat \<Rightarrow> jsstring" where
  "fileName t = ascii ''hedayat/'' @ decimal t @ ascii ''_edited-image.jpg''"

section \<open>Guest Record Store\<close>

text \<open>
  A path declared \<^verbatim>\<open>{ type: String, required: true }\<close>: a missing value, \<^verbatim>\<open>null\<close>
  and the empty string fail validation; a string is kept as it is; any other value is
  cast first.
\<close>

fun required_String :: "env \<Rightarrow> jsval \<Rightarrow> jsstring option" where
  "required_String e JUndefined = None"
| "required_String e JNull = None"
| "required_String e (JStr s) = (if s = [] then None else Some s)"
| "required_String e v =
     (case cast_other e v of
        None \<Rightarrow> None
      | Some s \<Rightarrow> if s = [] then None else Some s)"

text \<open>
  \<^verbatim>\<open>new SampleModel({ name, number, imagePath: imageUrl }).save()\<close>: validation, then
  the insertion, which the database refuses for an identifier already in the
  collection.
\<close>

definition SampleModel_save ::
  "env \<Rightarrow> jsval \<Rightarrow> jsval \<Rightarrow> jsval \<Rightarrow> world \<Rightarrow> failure + (world \<times> card)" where
  "SampleModel_save e nm num path w =
     (case (required_String e nm, required_String e num, required_String e path) of
        (Some n, Some m, Some p) \<Rightarrow>
          if db_error e \<noteq> None \<or> cards w (new_oid e) \<noteq> None then Inl StoreFailed
          else
            let savedRecord =
              \<lparr> card_id = new_oid e, card_name = n, card_number = m, card_imagePath = p \<rparr>
            in Inr (w\<lparr> cards := (cards w)(new_oid e \<mapsto> savedRecord) \<rparr>, savedRecord)
      | _ \<Rightarrow> Inl ValidationFailed)"

section \<open>Request Handlers\<close>

subsection \<open>POST /fill-image\<close>

text \<open>
  The statements of the handler from \<^verbatim>\<open>loadImage\<close> to \<^verbatim>\<open>newSample.save()\<close>; the
  three source files have the same statements here. The result is the record saved, or
  the step that threw, which the \<^verbatim>\<open>catch\<close> of each handler receives.
\<close>

definition fill_image_steps ::
  "env \<Rightarrow> request \<Rightarrow> world \<Rightarrow> world \<times> effect list \<times> (failure + card)" where
  "fill_image_steps e b w =
     (case template e of
        None \<Rightarrow> (w, [], Inl LoadFailed)
      | Some (tw, th) \<Rightarrow>
          if \<not> draws e then (w, [], Inl RenderFailed)
          else
            let editedImageBuffer = compose e tw th (name b) (twoNames b);
                file = fileName (now e)
            in
              if \<not> save_file e then (w, [Composed editedImageBuffer], Inl UploadFailed)
              else
                let w1 = w\<lparr> bucket := (bucket w)(file \<mapsto> editedImageBuffer) \<rparr> in
                (case signed_url e of
                   None \<Rightarrow>
                     (w1, [Composed editedImageBuffer, Uploaded file editedImageBuffer],
                      Inl SignFailed)
                 | Some imageUrl \<Rightarrow>
                     let w2 = w1\<lparr> issued := (imageUrl, file) # issued w1 \<rparr> in
                     (case SampleModel_save e (name b) (number b) (JStr imageUrl) w2 of
                        Inl f \<Rightarrow>
                          (w2, [Composed editedImageBuffer, Uploaded file editedImageBuffer,
                                Signed file imageUrl], Inl f)
                      | Inr (w3, savedRecord) \<Rightarrow>
                          (w3, [Composed editedImageBuffer, Uploaded file editedImageBuffer,
                                Signed file imageUrl, Inserted savedRecord],
                           Inr savedRecord))))"

text \<open>
  The handler of the two later source files (\<^verbatim>\<open>part_000\<close>, \<^verbatim>\<open>part_001\<close>):
  \<^verbatim>\<open>
  if (!name || !number) {
    return res.status(400).json({ status: "nok", message: "Name and number are required" });
  }
  ...
  res.json({ card: savedRecord });
  } catch (err) {
    res.status(500).json({ status: "nok", message: "Failed to create image" });
  }
  \<close>
\<close>

definition fill_image :: "env \<Rightarrow> request \<Rightarrow> world \<Rightarrow> world \<times> effect list \<times> response" where
  "fill_image e b w =
     (if \<not> js_truthy (name b) \<or> \<not> js_truthy (number b)
      then (w, [], \<lparr> status = 400,
                      content = Json_status_message (ascii ''nok'')
                                  (ascii ''Name and number are required'') \<rparr>)
      else
        (case fill_image_steps e b w of
           (w', t, Inr savedRecord) \<Rightarrow> (w', t, \<lparr> status = 200, content = Json_card savedRecord \<rparr>)
         | (w', t, Inl err) \<Rightarrow>
             (w', t, \<lparr> status = 500,
                       content = Json_status_message (ascii ''nok'')
                                   (ascii ''Failed to create image'') \<rparr>)))"

text \<open>
  The handler of \<^verbatim>\<open>index.js\<close>: no check of \<^verbatim>\<open>name\<close> and \<^verbatim>\<open>number\<close>, and
  \<^verbatim>\<open>res.status(500).send('Internal Server Error')\<close> in the \<^verbatim>\<open>catch\<close>.
\<close>

definition fill_image_index :: "env \<Rightarrow> request \<Rightarrow> world \<Rightarrow> world \<times> effect list \<times> response" where
  "fill_image_index e b w =
     (case fill_image_steps e b w of
        (w', t, Inr savedRecord) \<Rightarrow> (w', t, \<lparr> status = 200, content = Json_card savedRecord \<rparr>)
      | (w', t, Inl err) \<Rightarrow>
          (w', t, \<lparr> status = 500, content = Text (ascii ''Internal Server Error'') \<rparr>))"

subsection \<open>DELETE /guests_list/:id\<close>

text \<open>
  \<^verbatim>\<open>SampleModel.findByIdAndDelete(sampleId)\<close>: the identifier is cast first (a
  malformed one rejects with a CastError), then the database removes the document and
  returns it, or returns \<^verbatim>\<open>null\<close> when there is none. The error is its message.
\<close>

definition findByIdAndDelete :: "env \<Rightarrow> jsstring \<Rightarrow> world \<Rightarrow> jsstring + (world \<times> card option)" where
  "findByIdAndDelete e sampleId w =
     (case parse_oid e sampleId of
        None \<Rightarrow> Inl (cast_error e sampleId)
      | Some i \<Rightarrow>
          (case db_error e of
             Some m \<Rightarrow> Inl m
           | None \<Rightarrow>
               (case cards w i of
                  None \<Rightarrow> Inr (w, None)
                | Some c \<Rightarrow> Inr (w\<lparr> cards := (cards w)(i := None) \<rparr>, Some c))))"

text \<open>
  The handler of \<^verbatim>\<open>part_000\<close> and \<^verbatim>\<open>part_001\<close>:
  \<^verbatim>\<open>
  const deletedSample = await SampleModel.findByIdAndDelete(sampleId);
  if (!deletedSample) {
    return res.status(404).json({ status: "not found", message: "Record not found" });
  }
  res.json({ status: "success", message: "Record deleted successfully", deletedSample });
  } catch (error) {
    res.status(500).json({ status: "nok", message: "Failed to delete guest" });
  }
  \<close>
\<close>

definition delete_guest :: "env \<Rightarrow> jsstring \<Rightarrow> world \<Rightarrow> world \<times> effect list \<times> response" where
  "delete_guest e sampleId w =
     (case findByIdAndDelete e sampleId w of
        Inl error \<Rightarrow>
          (w, [], \<lparr> status = 500,
                    content = Json_status_message (ascii ''nok'') (ascii ''Failed to delete guest'') \<rparr>)
      | Inr (w', None) \<Rightarrow>
          (w', [], \<lparr> status = 404,
                     content = Json_status_message (ascii ''not found'') (ascii ''Record not found'') \<rparr>)
      | Inr (w', Some deletedSample) \<Rightarrow>
          (w', [Removed deletedSample],
           \<lparr> status = 200,
             content = Json_deleted (ascii ''success'') (ascii ''Record deleted successfully'')
                         deletedSample \<rparr>))"

text \<open>
  The handler of \<^verbatim>\<open>index.js\<close> differs in the \<^verbatim>\<open>catch\<close>:
  \<^verbatim>\<open>res.status(500).send({ status: "nok", message: error.message })\<close>.
\<close>

definition delete_guest_index :: "env \<Rightarrow> jsstring \<Rightarrow> world \<Rightarrow> world \<times> effect list \<times> response" where
  "delete_guest_index e sampleId w =
     (case findByIdAndDelete e sampleId w of
        Inl error \<Rightarrow>
          (w, [], \<lparr> status = 500, content = Json_status_message (ascii ''nok'') error \<rparr>)
      | Inr (w', None) \<Rightarrow>
          (w', [], \<lparr> status = 404,
                     content = Json_status_message (ascii ''not found'') (ascii ''Record not found'') \<rparr>)
      | Inr (w', Some deletedSample) \<Rightarrow>
          (w', [Removed deletedSample],
           \<lparr> status = 200,
             content = Json_deleted (ascii ''success'') (ascii ''Record deleted successfully'')
                         deletedSample \<rparr>))"

subsection \<open>GET /get-image/:id\<close>

text \<open>\<^verbatim>\<open>SampleModel.findById(guestId)\<close>: the cast, then the lookup.\<close>

definition findById :: "env \<Rightarrow> jsstring \<Rightarrow> world \<Rightarrow> jsstring + card option" where
  "findById e guestId w =
     (case parse_oid e guestId of
        None \<Rightarrow> Inl (cast_error e guestId)
      | Some i \<Rightarrow> (case db_error e of Some m \<Rightarrow> Inl m | None \<Rightarrow> Inr (cards w i)))"

text \<open>\<^verbatim>\<open>mongoose.Types.ObjectId.isValid(guestId)\<close>\<close>

definition isValid :: "env \<Rightarrow> jsstring \<Rightarrow> bool" where
  "isValid e guestId = (parse_oid e guestId \<noteq> None)"

text \<open>\<^verbatim>\<open>guest.name.replace(/[^\x20-\x7E]/g, '_')\<close>\<close>

definition asciiFilename :: "jsstring \<Rightarrow> jsstring" where
  "asciiFilename nm = map (\<lambda>c. if 0x20 \<le> c \<and> c \<le> 0x7E then c else 0x5F) nm"

text \<open>
  \<^verbatim>\<open>`attachment; filename="${asciiFilename}.jpg"; filename*=UTF-8''${encodedFilename}.jpg`\<close>
  (\<open>0x22\<close> is the double quote, \<open>0x27\<close> the single quote).
\<close>

definition contentDisposition :: "jsstring \<Rightarrow> jsstring \<Rightarrow> jsstring" where
  "contentDisposition asciiName encodedFilename =
     ascii ''attachment; filename='' @ [0x22] @ asciiName @ ascii ''.jpg'' @ [0x22]
       @ ascii ''; filename*=UTF-8'' @ [0x27, 0x27] @ encodedFilename @ ascii ''.jpg''"

text \<open>
  The statements of the handler of \<^verbatim>\<open>part_000\<close> after the check of the identifier:
  the response sent, or the message of the error thrown.
\<close>

definition get_image_steps :: "env \<Rightarrow> jsstring \<Rightarrow> world \<Rightarrow> jsstring + response" where
  "get_image_steps e guestId w =
     (case findById e guestId w of
        Inl m \<Rightarrow> Inl m
      | Inr None \<Rightarrow>
          Inr \<lparr> status = 404,
                content = Json_status_message (ascii ''not found'') (ascii ''Guest or image not found'') \<rparr>
      | Inr (Some guest) \<Rightarrow>
          if card_imagePath guest = [] then
            Inr \<lparr> status = 404,
                  content = Json_status_message (ascii ''not found'') (ascii ''Guest or image not found'') \<rparr>
          else
            (case axios_get e (card_imagePath guest) of
               Inl m \<Rightarrow> Inl m
             | Inr (st, data, statusText) \<Rightarrow>
                 if st \<noteq> 200 then Inl (ascii ''Failed to fetch image: '' @ statusText)
                 else
                   (case encodeURIComponent e (card_name guest) of
                      Inl m \<Rightarrow> Inl m
                    | Inr encodedFilename \<Rightarrow>
                        Inr \<lparr> status = 200,
                              content = Binary
                                [(ascii ''Content-Type'', ascii ''image/jpeg''),
                                 (ascii ''Content-Disposition'',
                                  contentDisposition (asciiFilename (card_name guest)) encodedFilename),
                                 (ascii ''Access-Control-Allow-Origin'', ascii ''*'')]
                                data \<rparr>)))"

text \<open>
  \<^verbatim>\<open>
  if (!mongoose.Types.ObjectId.isValid(guestId)) {
    return res.status(400).json({ status: "nok", message: "Invalid guest ID" });
  }
  ...
  } catch (error) {
    res.status(500).json({ status: "nok", message: `Failed to fetch image: ${error.message}` });
  }
  \<close>
  The handler changes neither the bucket nor the collection.
\<close>

definition get_image :: "env \<Rightarrow> jsstring \<Rightarrow> world \<Rightarrow> response" where
  "get_image e guestId w =
     (if \<not> isValid e guestId
      then \<lparr> status = 400, content = Json_status_message (ascii ''nok'') (ascii ''Invalid guest ID'') \<rparr>
      else
        (case get_image_steps e guestId w of
           Inr r \<Rightarrow> r
         | Inl m \<Rightarrow>
             \<lparr> status = 500,
               content = Json_status_message (ascii ''nok'') (ascii ''Failed to fetch image: '' @ m) \<rparr>))"

text \<open>
  The handler of \<^verbatim>\<open>part_001\<close> has no check of the identifier, and the file never
  requires \<^verbatim>\<open>axios\<close>: for a guest with an image path \<^verbatim>\<open>axios.get\<close> throws a
  ReferenceError, which the \<^verbatim>\<open>catch\<close> answers like every other error, with
  \<^verbatim>\<open>res.status(500).json({ status: "nok", message: "Failed to fetch image" })\<close>.
\<close>

definition get_image_001 :: "env \<Rightarrow> jsstring \<Rightarrow> world \<Rightarrow> response" where
  "get_image_001 e guestId w =
     (case findById e guestId w of
        Inl m \<Rightarrow>
          \<lparr> status = 500, content = Json_status_message (ascii ''nok'') (ascii ''Failed to fetch image'') \<rparr>
      | Inr None \<Rightarrow>
          \<lparr> status = 404,
            content = Json_status_message (ascii ''not found'') (ascii ''Guest or image not found'') \<rparr>
      | Inr (Some guest) \<Rightarrow>
          if card_imagePath guest = [] then
            \<lparr> status = 404,
              content = Json_status_message (ascii ''not found'') (ascii ''Guest or image not found'') \<rparr>
          else
            \<lparr> status = 500, content = Json_status_message (ascii ''nok'') (ascii ''Failed to fetch image'') \<rparr>)"

section \<open>Reachable states\<close>

text \<open>The service starts with an empty bucket and an empty collection.\<close>

definition world0 :: world where
  "world0 = \<lparr> bucket = Map.empty, issued = [], cards = Map.empty \<rparr>"

text \<open>
  A state is reached with a history: the effects of all requests so far, oldest first.
  The requests go to the handlers that write, whatever they hold and whatever the
  services answer.
\<close>

inductive reaches :: "effect list \<Rightarrow> world \<Rightarrow> bool" where
  start: "reaches [] world0"
| post_fill_image: "reaches h w \<Longrightarrow> fill_image e b w = (w', t, r) \<Longrightarrow> reaches (h @ t) w'"
| post_fill_image_index: "reaches h w \<Longrightarrow> fill_image_index e b w = (w', t, r) \<Longrightarrow> reaches (h @ t) w'"
| delete_guests_list: "reaches h w \<Longrightarrow> delete_guest e i w = (w', t, r) \<Longrightarrow> reaches (h @ t) w'"
| delete_guests_list_index: "reaches h w \<Longrightarrow> delete_guest_index e i w = (w', t, r) \<Longrightarrow> reaches (h @ t) w'"

text \<open>The object a history leaves at a path: the one of the latest upload there.\<close>

fun last_upload :: "effect list \<Rightarrow> jsstring \<Rightarrow> surface option" where
  "last_upload [] p = None"
| "last_upload (Uploaded q buf # h) p =
     (case last_upload h p of Some b \<Rightarrow> Some b | None \<Rightarrow> if q = p then Some buf else None)"
| "last_upload (x # h) p = last_upload h p"

text \<open>
  The record was created right after an upload and the signing of its image path for the
  path of that upload.
\<close>

definition inserted_after_upload :: "effect list \<Rightarrow> card \<Rightarrow> bool" where
  "inserted_after_upload h c =
     (\<exists>p buf h1 h2. h = h1 @ [Uploaded p buf, Signed p (card_imagePath c), Inserted c] @ h2)"

text \<open>
  The words of the specification: the image path of the record refers to an object that
  was uploaded before the record existed. The history has the upload of an object, the
  signing of the record's image path for the path of that object and then the creation
  of the record; no later upload went to that path, and the bucket holds that object.
\<close>

definition object_predates_record :: "effect list \<Rightarrow> world \<Rightarrow> card \<Rightarrow> bool" where
  "object_predates_record h w c =
     (\<exists>p buf h1 h2.
        h = h1 @ [Uploaded p buf, Signed p (card_imagePath c), Inserted c] @ h2
        \<and> last_upload h2 p = None \<and> bucket w p = Some buf)"

text \<open>
  The same without the object's identity: an object was uploaded and the image path
  signed for its path before the record was created, the bucket still holds an object at
  that path, and it is the object uploaded then unless a later upload went to the path.
\<close>

definition created_after_upload :: "effect list \<Rightarrow> world \<Rightarrow> card \<Rightarrow> bool" where
  "created_after_upload h w c =
     (\<exists>p buf h1 h2.
        h = h1 @ [Uploaded p buf, Signed p (card_imagePath c), Inserted c] @ h2
        \<and> bucket w p \<noteq> None
        \<and> (last_upload h2 p = None \<longrightarrow> bucket w p = Some buf))"

section \<open>Signed URLs\<close>

text \<open>
  A well-formed URL, read as an absolute \<^verbatim>\<open>http\<close> or \<^verbatim>\<open>https\<close> URL of printable
  ASCII characters without a space.
\<close>

definition well_formed_url :: "jsstring \<Rightarrow> bool" where
  "well_formed_url u =
     ((take 8 u = ascii ''https://'' \<and> 8 < length u \<or> take 7 u = ascii ''http://'' \<and> 7 < length u)
      \<and> list_all (\<lambda>c. 0x21 \<le> c \<and> c \<le> 0x7E) u)"

text \<open>
  The contract of the storage service: the URL \<^verbatim>\<open>file.getSignedUrl\<close> resolves to is
  well-formed. The SDK is not code of the repository, and the handlers store its reply
  as it comes.
\<close>

definition signs_urls :: "env \<Rightarrow> bool" where
  "signs_urls e = (case signed_url e of None \<Rightarrow> True | Some u \<Rightarrow> well_formed_url u)"

section \<open>Concrete services\<close>

text \<open>
  An instance of \<open>parse_oid\<close>: an ObjectId written as 24 hexadecimal digits.
\<close>

definition hex_value :: "code_unit \<Rightarrow> nat option" where
  "hex_value c =
     (if 0x30 \<le> c \<and> c \<le> 0x39 then Some (unat c - 0x30)
      else if 0x61 \<le> c \<and> c \<le> 0x66 then Some (unat c - 0x61 + 10)
      else if 0x41 \<le> c \<and> c \<le> 0x46 then Some (unat c - 0x41 + 10)
      else None)"

fun hex_number :: "nat \<Rightarrow> jsstring \<Rightarrow> nat option" where
  "hex_number acc [] = Some acc"
| "hex_number acc (c # cs) =
     (case hex_value c of None \<Rightarrow> None | Some d \<Rightarrow> hex_number (16 * acc + d) cs)"

definition hex24 :: "jsstring \<Rightarrow> objectid option" where
  "hex24 s = (if length s = 24 then map_option of_nat (hex_number 0 s) else None)"

text \<open>
  Services that answer: a template of 1000 by 1400, an upload that is stored, a signed
  URL, a database that performs the operation.
\<close>

definition env_ok :: env where
  "env_ok =
     \<lparr> toString_other = (\<lambda>v. ascii ''[object Object]''),
       cast_other = (\<lambda>v. None),
       parse_oid = hex24,
       cast_error = (\<lambda>s. ascii ''Cast to ObjectId failed''),
       template = Some (1000, 1400),
       draws = True,
       now = 1700000000000,
       save_file = True,
       signed_url = Some (ascii ''https://storage.googleapis.com/navid/hedayat/1.jpg?X-Goog-Signature=ab''),
       db_error = None,
       new_oid = 1,
       axios_get = (\<lambda>u. Inr (200, [], ascii ''OK'')),
       encodeURIComponent = (\<lambda>s. Inr s) \<rparr>"

text \<open>The same services with a database that rejects every operation.\<close>

definition env_db_down :: env where
  "env_db_down = env_ok\<lparr> db_error := Some (ascii ''connection timed out'') \<rparr>"

text \<open>\<^verbatim>\<open>{name: "Sara", number: "12"}\<close> and \<^verbatim>\<open>{name: "", number: "5"}\<close>\<close>

definition sara :: request where
  "sara = \<lparr> name = JStr (ascii ''Sara''), number = JStr (ascii ''12''), twoNames = JUndefined \<rparr>"

definition no_name :: request where
  "no_name = \<lparr> name = JStr [], number = JStr (ascii ''5''), twoNames = JUndefined \<rparr>"

text \<open>The record and the state after the request \<open>sara\<close> at the start.\<close>

definition sara_card :: card where
  "sara_card =
     \<lparr> card_id = 1, card_name = ascii ''Sara'', card_number = ascii ''12'',
       card_imagePath = ascii ''https://storage.googleapis.com/navid/hedayat/1.jpg?X-Goog-Signature=ab'' \<rparr>"

definition sara_world :: world where
  "sara_world =
     \<lparr> bucket = [fileName 1700000000000 \<mapsto> compose env_ok 1000 1400 (JStr (ascii ''Sara'')) JUndefined],
       issued = [(ascii ''https://storage.googleapis.com/navid/hedayat/1.jpg?X-Goog-Signature=ab'',
                  fileName 1700000000000)],
       cards = [1 \<mapsto> sara_card] \<rparr>"

text \<open>
  A second request \<^verbatim>\<open>{name: "Ali", number: "7"}\<close> in the same millisecond as
  \<open>sara\<close>: the record, the state and the history after both.
\<close>

definition ali :: request where
  "ali = \<lparr> name = JStr (ascii ''Ali''), number = JStr (ascii ''7''), twoNames = JUndefined \<rparr>"

definition ali_card :: card where
  "ali_card =
     \<lparr> card_id = 2, card_name = ascii ''Ali'', card_number = ascii ''7'',
       card_imagePath = ascii ''https://storage.googleapis.com/navid/hedayat/1.jpg?X-Goog-Signature=ab'' \<rparr>"

definition collision_world :: world where
  "collision_world =
     \<lparr> bucket = [fileName 1700000000000 \<mapsto> compose env_ok 1000 1400 (JStr (ascii ''Ali'')) JUndefined],
       issued = [(ascii ''https://storage.googleapis.com/navid/hedayat/1.jpg?X-Goog-Signature=ab'',
                  fileName 1700000000000),
                 (ascii ''https://storage.googleapis.com/navid/hedayat/1.jpg?X-Goog-Signature=ab'',
                  fileName 1700000000000)],
       cards = [1 \<mapsto> sara_card, 2 \<mapsto> ali_card] \<rparr>"

definition collision_history :: "effect list" where
  "collision_history =
     [Composed (compose env_ok 1000 1400 (JStr (ascii ''Sara'')) JUndefined),
      Uploaded (fileName 1700000000000) (compose env_ok 1000 1400 (JStr (ascii ''Sara'')) JUndefined),
      Signed (fileName 1700000000000) (card_imagePath sara_card),
      Inserted sara_card,
      Composed (compose env_ok 1000 1400 (JStr (ascii ''Ali'')) JUndefined),
      Uploaded (fileName 1700000000000) (compose env_ok 1000 1400 (JStr (ascii ''Ali'')) JUndefined),
      Signed (fileName 1700000000000) (card_imagePath ali_card),
      Inserted ali_card]"

section \<open>Properties of the Script Classifier\<close>

lemma list_ex_Lit: "list_ex (\<lambda>i. item_matches i c) (map Lit xs) = (c \<in> set xs)"
  by (induction xs) auto

lemma in_class_admitted: "in_class c = admitted c"
  unfolding in_class_def languageRegex_class_def admitted_def designated_letter_def
  by (simp only: list_ex_append list_ex_Lit list_ex_Nil_iff list_ex_Cons_iff item_matches.simps) blast

lemma class_plus_end_iff: "class_plus_end s = (s \<noteq> [] \<and> list_all admitted s)"
  by (induction s rule: class_plus_end.induct) (auto simp: in_class_admitted)

lemma space_admitted: "js_space c \<Longrightarrow> admitted c"
  by (simp add: admitted_def)

text \<open>
  The classifier on some names: plain and accented Latin letters are accepted; a digit,
  Arabic letters (U+0633 U+0627 U+0631 U+0627) and punctuation are not.
\<close>

lemma classifier_examples:
  "languageRegex_test (ascii ''Sara'') \<and> languageRegex_test (ascii ''Anna Maria'')
   \<and> languageRegex_test [0x4D, 0xFC, 0x6C, 0x6C, 0x65, 0x72]
   \<and> \<not> languageRegex_test (ascii ''Sara1'')
   \<and> \<not> languageRegex_test [0x633, 0x627, 0x631, 0x627]
   \<and> \<not> languageRegex_test (ascii ''O.K.'')"
  by (simp add: languageRegex_test_def in_class_admitted admitted_def designated_letter_def
      js_space_def accented_def ascii_def)

text \<open>
  Claim C2, as amended. The Script Classifier returns true exactly for the non-empty
  strings in which every character is a letter of the designated Latin set or
  whitespace: true for every such non-empty string, false for every string with a
  character outside the set, and false for the empty string.
\<close>

theorem classifier_nonempty: "languageRegex_test s = (s \<noteq> [] \<and> all_admitted s)"
  by (simp add: languageRegex_test_def class_plus_end_iff all_admitted_def)

text \<open>
  Claim C2 as stated fails at the empty string: every character of it (there is none) is
  in the set, and \<^verbatim>\<open>+\<close> needs one character, so the classifier returns false.
\<close>

theorem classifier_empty_counterexample: "all_admitted [] \<and> \<not> languageRegex_test []"
  by (simp add: all_admitted_def languageRegex_test_def)

text \<open>
  Claim C9. A non-empty name of whitespace characters only is classified as Latin script,
  and the compositor draws it with the Latin font.
\<close>

theorem whitespace_name_is_latin:
  assumes "s \<noteq> []" and "all_space s"
  shows "languageRegex_test s \<and> font (compose e w h (JStr s) two) = ascii ''26px EnglishFont''"
proof -
  from assms(2) have "list_all admitted s"
    unfolding all_space_def by (induction s) (simp_all add: space_admitted)
  with assms(1) have "languageRegex_test s"
    by (simp add: languageRegex_test_def class_plus_end_iff)
  then show ?thesis
    by (simp add: compose_def Let_def)
qed

theorem whitespace_name_is_latin_witness:
  "[0x20, 0x09, 0xA0] \<noteq> ([] :: jsstring) \<and> all_space [0x20, 0x09, 0xA0]
   \<and> languageRegex_test [0x20, 0x09, 0xA0]
   \<and> font (compose env_ok 1000 1400 (JStr [0x20, 0x09, 0xA0]) JUndefined) = ascii ''26px EnglishFont''"
proof -
  have ne: "[0x20, 0x09, 0xA0] \<noteq> ([] :: jsstring)" by simp
  have sp: "all_space [0x20, 0x09, 0xA0]" by (simp add: all_space_def js_space_def)
  from whitespace_name_is_latin [OF ne sp, of env_ok 1000 1400 JUndefined] ne sp
  show ?thesis by simp
qed

section \<open>Properties of the Image Compositor\<close>

text \<open>
  Claim C1. On a surface of width \<open>w\<close> and height \<open>h\<close> the compositor draws the name
  of the request at the horizontal coordinate \<open>w / 2 - 50\<close>, and at the vertical
  coordinate \<open>h / 2 + 35\<close> when \<open>twoNames\<close> is false and \<open>h / 2 - 180\<close> when it is
  true, which is 215 less for the same height.
\<close>

theorem fillText_placement:
  "fillText_text (compose e w h nm two) = nm
   \<and> fillText_x (compose e w h nm two) = of_nat w / 2 - 50
   \<and> fillText_y (compose e w h nm (JBool False)) = of_nat h / 2 + 35
   \<and> fillText_y (compose e w h nm (JBool True)) = of_nat h / 2 - 180
   \<and> fillText_y (compose e w h nm (JBool True)) = fillText_y (compose e w h nm (JBool False)) - 215"
  by (simp add: compose_def Let_def)

section \<open>Properties of the fill-image workflow\<close>

lemma SampleModel_save_Inr:
  "SampleModel_save e nm num path w = Inr (w', c) \<Longrightarrow>
     db_error e = None \<and> cards w (new_oid e) = None
     \<and> required_String e nm = Some (card_name c) \<and> required_String e num = Some (card_number c)
     \<and> required_String e path = Some (card_imagePath c) \<and> card_id c = new_oid e
     \<and> w' = w\<lparr> cards := (cards w)(new_oid e \<mapsto> c) \<rparr>"
  by (auto simp: SampleModel_save_def Let_def split: option.splits if_splits)

lemma steps_success:
  "fill_image_steps e b w = (w', t, Inr c) \<Longrightarrow>
     \<exists>tw th. template e = Some (tw, th) \<and> draws e \<and> save_file e
       \<and> signed_url e = Some (card_imagePath c)
       \<and> required_String e (name b) = Some (card_name c)
       \<and> required_String e (number b) = Some (card_number c)
       \<and> db_error e = None \<and> cards w (new_oid e) = None \<and> card_id c = new_oid e
       \<and> t = [Composed (compose e tw th (name b) (twoNames b)),
              Uploaded (fileName (now e)) (compose e tw th (name b) (twoNames b)),
              Signed (fileName (now e)) (card_imagePath c), Inserted c]
       \<and> w' = w\<lparr> bucket := (bucket w)(fileName (now e) \<mapsto> compose e tw th (name b) (twoNames b)),
                  issued := (card_imagePath c, fileName (now e)) # issued w,
                  cards := (cards w)(new_oid e \<mapsto> c) \<rparr>"
  by (auto simp: fill_image_steps_def Let_def split: option.splits if_splits sum.splits prod.splits
      dest!: SampleModel_save_Inr)

lemma steps_failure:
  "fill_image_steps e b w = (w', t, Inl f) \<Longrightarrow>
     cards w' = cards w \<and> (\<forall>c. Inserted c \<notin> set t) \<and>
     (\<forall>p buf. Uploaded p buf \<in> set t \<longrightarrow> bucket w' p = Some buf)"
  by (auto simp: fill_image_steps_def Let_def split: option.splits if_splits sum.splits prod.splits)

lemma steps_inserted:
  "fill_image_steps e b w = (w', t, x) \<Longrightarrow> Inserted c \<in> set t \<Longrightarrow> x = Inr c"
  by (auto simp: fill_image_steps_def Let_def split: option.splits if_splits sum.splits prod.splits)

lemma steps_compose:
  "template e = Some (tw, th) \<Longrightarrow> draws e \<Longrightarrow> fill_image_steps e b w = (w', t, x) \<Longrightarrow>
     Composed (compose e tw th (name b) (twoNames b)) \<in> set t"
  by (auto simp: fill_image_steps_def Let_def split: option.splits if_splits sum.splits prod.splits)

lemma handler_steps:
  assumes "fill_image e b w = (w', t, r) \<or> fill_image_index e b w = (w', t, r)"
    and "t \<noteq> []"
  shows "\<exists>x. fill_image_steps e b w = (w', t, x) \<and> (status r = 200) = (\<exists>c. x = Inr c)
             \<and> (status r = 500) = (\<exists>f. x = Inl f) \<and> (\<forall>c. x = Inr c \<longrightarrow> content r = Json_card c)"
  using assms
  by (auto simp: fill_image_def fill_image_index_def split: if_splits prod.splits sum.splits)

text \<open>
  A handler composes through \<open>compose\<close> only, on a surface of the size of the
  template, with the \<open>name\<close> and \<open>twoNames\<close> of the request as they came.
\<close>

lemma composed_surface:
  assumes "fill_image e b w = (w', t, r) \<or> fill_image_index e b w = (w', t, r)"
    and "Composed s \<in> set t"
  shows "\<exists>tw th. template e = Some (tw, th) \<and> draws e \<and> s = compose e tw th (name b) (twoNames b)"
proof -
  from assms(1) obtain x where steps: "fill_image_steps e b w = (w', t, x) \<or> t = []"
    by (auto simp: fill_image_def fill_image_index_def split: if_splits prod.splits sum.splits)
  with assms(2) have "fill_image_steps e b w = (w', t, x)" by auto
  with assms(2) show ?thesis
    by (auto simp: fill_image_steps_def Let_def split: option.splits if_splits sum.splits prod.splits)
qed

lemma insert_after_upload:
  assumes "fill_image e b w = (w', t, r) \<or> fill_image_index e b w = (w', t, r)"
    and "Inserted c \<in> set t"
  shows "\<exists>buf. t = [Composed buf, Uploaded (fileName (now e)) buf,
                     Signed (fileName (now e)) (card_imagePath c), Inserted c]
               \<and> bucket w' (fileName (now e)) = Some buf
               \<and> (card_imagePath c, fileName (now e)) \<in> set (issued w')
               \<and> cards w (card_id c) = None \<and> cards w' (card_id c) = Some c"
proof -
  from assms(2) have "t \<noteq> []" by auto
  with assms(1) obtain x where steps: "fill_image_steps e b w = (w', t, x)"
    using handler_steps by blast
  from steps_inserted [OF steps assms(2)] have "x = Inr c" .
  with steps have "fill_image_steps e b w = (w', t, Inr c)" by simp
  from steps_success [OF this] show ?thesis by auto
qed

lemma orphan_after_failed_write:
  assumes "template e = Some (tw, th)" and "draws e" and "save_file e"
    and "signed_url e = Some u" and "db_error e = Some m"
  shows "fill_image_steps e b w =
           (w\<lparr> bucket := (bucket w)(fileName (now e) \<mapsto> compose e tw th (name b) (twoNames b)),
               issued := (u, fileName (now e)) # issued w \<rparr>,
            [Composed (compose e tw th (name b) (twoNames b)),
             Uploaded (fileName (now e)) (compose e tw th (name b) (twoNames b)),
             Signed (fileName (now e)) u],
            Inl (if required_String e (name b) = None \<or> required_String e (number b) = None \<or> u = []
                 then ValidationFailed else StoreFailed))"
  using assms
  by (auto simp: fill_image_steps_def SampleModel_save_def Let_def split: option.splits)

lemma fill_image_rejects_falsy:
  "\<not> js_truthy (name b) \<or> \<not> js_truthy (number b) \<Longrightarrow>
     fill_image e b w =
       (w, [], \<lparr> status = 400,
                 content = Json_status_message (ascii ''nok'') (ascii ''Name and number are required'') \<rparr>)"
  by (auto simp: fill_image_def)

lemma fill_image_index_status:
  "fill_image_index e b w = (w', t, r) \<Longrightarrow> status r = 200 \<or> status r = 500"
  by (auto simp: fill_image_index_def split: prod.splits sum.splits)

lemma fill_image_truthy_status:
  "js_truthy (name b) \<Longrightarrow> js_truthy (number b) \<Longrightarrow> fill_image e b w = (w', t, r) \<Longrightarrow>
     status r = 200 \<or> status r = 500"
  by (auto simp: fill_image_def split: prod.splits sum.splits)

lemma run_sara:
  "fill_image env_ok sara world0 =
     (sara_world,
      [Composed (compose env_ok 1000 1400 (JStr (ascii ''Sara'')) JUndefined),
       Uploaded (fileName 1700000000000) (compose env_ok 1000 1400 (JStr (ascii ''Sara'')) JUndefined),
       Signed (fileName 1700000000000) (card_imagePath sara_card),
       Inserted sara_card],
      \<lparr> status = 200, content = Json_card sara_card \<rparr>)"
  by (simp add: fill_image_def fill_image_steps_def SampleModel_save_def env_ok_def sara_def world0_def
      sara_world_def sara_card_def Let_def ascii_def)

text \<open>
  Claim C10. The handler tests \<open>twoNames\<close> for truthiness and does not check that it is
  a boolean: whenever a handler composes, a truthy value (the string \<^verbatim>\<open>"false"\<close> is
  one) gives the vertical coordinate \<open>height / 2 - 180\<close>, and a falsy or absent one
  gives \<open>height / 2 + 35\<close>.
\<close>

theorem twoNames_truthiness:
  assumes "fill_image e b w = (w', t, r) \<or> fill_image_index e b w = (w', t, r)"
    and "Composed s \<in> set t"
  shows "fillText_y s =
           (if js_truthy (twoNames b) then of_nat (height s) / 2 - 180 else of_nat (height s) / 2 + 35)
         \<and> js_truthy (JStr (ascii ''false'')) \<and> \<not> js_truthy JUndefined"
proof -
  from composed_surface [OF assms] obtain tw th where "s = compose e tw th (name b) (twoNames b)"
    by blast
  then show ?thesis
    by (simp add: compose_def Let_def ascii_def)
qed

theorem twoNames_truthiness_witness:
  "Composed (compose env_ok 1000 1400 (JStr (ascii ''Sara'')) (JStr (ascii ''false'')))
     \<in> set (fst (snd (fill_image env_ok (sara\<lparr> twoNames := JStr (ascii ''false'') \<rparr>) world0)))
   \<and> fillText_y (compose env_ok 1000 1400 (JStr (ascii ''Sara'')) (JStr (ascii ''false''))) = 520
   \<and> fillText_y (compose env_ok 1000 1400 (JStr (ascii ''Sara'')) JUndefined) = 735"
proof -
  let ?req = "sara\<lparr> twoNames := JStr (ascii ''false'') \<rparr>"
  let ?s = "compose env_ok 1000 1400 (JStr (ascii ''Sara'')) (JStr (ascii ''false''))"
  let ?s' = "compose env_ok 1000 1400 (JStr (ascii ''Sara'')) JUndefined"
  have run: "fill_image env_ok ?req world0 =
      (fst (fill_image env_ok ?req world0), fst (snd (fill_image env_ok ?req world0)),
       snd (snd (fill_image env_ok ?req world0)))"
    by simp
  have comp: "Composed ?s \<in> set (fst (snd (fill_image env_ok ?req world0)))"
    by (simp add: fill_image_def fill_image_steps_def SampleModel_save_def env_ok_def sara_def
        world0_def Let_def ascii_def)
  have comp': "Composed ?s' \<in> set [Composed ?s',
       Uploaded (fileName 1700000000000) ?s',
       Signed (fileName 1700000000000) (card_imagePath sara_card),
       Inserted sara_card]"
    by simp
  have h: "height ?s = 1400" "height ?s' = 1400" "twoNames ?req = JStr (ascii ''false'')"
    "twoNames sara = JUndefined"
    by (simp_all add: compose_def Let_def sara_def)
  from twoNames_truthiness [OF disjI1 [OF run] comp] twoNames_truthiness [OF disjI1 [OF run_sara] comp']
    comp h
  show ?thesis by simp
qed

text \<open>
  Claim C8. The presence check of POST /fill-image (in \<^verbatim>\<open>part_000\<close> and
  \<^verbatim>\<open>part_001\<close>) is a test of truthiness: a falsy \<open>name\<close> or \<open>number\<close> (a missing
  field, \<^verbatim>\<open>null\<close>, the empty string, but also the number 0 and \<^verbatim>\<open>false\<close>) is
  answered with 400 and nothing else happens; with a truthy \<open>name\<close> and \<open>number\<close>
  (a string of one space is truthy) the answer is not 400 and the workflow goes on to
  compose.
\<close>

theorem presence_check_is_truthiness:
  assumes "fill_image e b w = (w', t, r)"
  shows "(\<not> js_truthy (name b) \<or> \<not> js_truthy (number b) \<longrightarrow>
            w' = w \<and> t = [] \<and>
            r = \<lparr> status = 400,
                  content = Json_status_message (ascii ''nok'') (ascii ''Name and number are required'') \<rparr>)
       \<and> (js_truthy (name b) \<and> js_truthy (number b) \<longrightarrow>
            status r \<noteq> 400
            \<and> (\<forall>tw th. template e = Some (tw, th) \<and> draws e \<longrightarrow>
                  Composed (compose e tw th (name b) (twoNames b)) \<in> set t))
       \<and> \<not> js_truthy JUndefined \<and> \<not> js_truthy JNull \<and> \<not> js_truthy (JStr [])
       \<and> \<not> js_truthy (JNum (Fin 0)) \<and> \<not> js_truthy (JBool False)
       \<and> js_truthy (JStr (ascii '' '')) \<and> js_truthy (JNum (Fin 5)) \<and> js_truthy (JBool True)"
proof (intro conjI impI allI)
  assume "\<not> js_truthy (name b) \<or> \<not> js_truthy (number b)"
  from fill_image_rejects_falsy [OF this, of e w] assms
  show "w' = w" and "t = []"
    and "r = \<lparr> status = 400,
               content = Json_status_message (ascii ''nok'') (ascii ''Name and number are required'') \<rparr>"
    by simp_all
next
  assume truthy: "js_truthy (name b) \<and> js_truthy (number b)"
  with assms have "status r = 200 \<or> status r = 500"
    using fill_image_truthy_status by blast
  then show "status r \<noteq> 400" by auto
  fix tw th
  assume "template e = Some (tw, th) \<and> draws e"
  moreover from truthy assms obtain x where "fill_image_steps e b w = (w', t, x)"
    by (auto simp: fill_image_def split: prod.splits sum.splits)
  ultimately show "Composed (compose e tw th (name b) (twoNames b)) \<in> set t"
    using steps_compose by blast
qed (simp_all add: ascii_def)

theorem presence_check_is_truthiness_witness:
  "fill_image env_ok \<lparr> name = JNum (Fin 0), number = JStr (ascii ''5''), twoNames = JUndefined \<rparr> world0 =
     (world0, [],
      \<lparr> status = 400,
        content = Json_status_message (ascii ''nok'') (ascii ''Name and number are required'') \<rparr>)
   \<and> js_truthy (JStr (ascii '' ''))
   \<and> status (snd (snd (fill_image env_ok
        \<lparr> name = JStr (ascii '' ''), number = JStr (ascii ''5''), twoNames = JUndefined \<rparr> world0))) \<noteq> 400
   \<and> Composed (compose env_ok 1000 1400 (JStr (ascii '' '')) JUndefined)
       \<in> set (fst (snd (fill_image env_ok
        \<lparr> name = JStr (ascii '' ''), number = JStr (ascii ''5''), twoNames = JUndefined \<rparr> world0)))"
proof -
  let ?zero = "\<lparr> name = JNum (Fin 0), number = JStr (ascii ''5''), twoNames = JUndefined \<rparr>"
  let ?blank = "\<lparr> name = JStr (ascii '' ''), number = JStr (ascii ''5''), twoNames = JUndefined \<rparr>"
  have z: "fill_image env_ok ?zero world0 =
      (fst (fill_image env_ok ?zero world0), fst (snd (fill_image env_ok ?zero world0)),
       snd (snd (fill_image env_ok ?zero world0)))"
    by simp
  have b: "fill_image env_ok ?blank world0 =
      (fst (fill_image env_ok ?blank world0), fst (snd (fill_image env_ok ?blank world0)),
       snd (snd (fill_image env_ok ?blank world0)))"
    by simp
  have env: "template env_ok = Some (1000, 1400) \<and> draws env_ok"
    by (simp add: env_ok_def)
  from presence_check_is_truthiness [OF z, THEN conjunct1]
  have 1: "fill_image env_ok ?zero world0 =
     (world0, [],
      \<lparr> status = 400,
        content = Json_status_message (ascii ''nok'') (ascii ''Name and number are required'') \<rparr>)"
    by (simp add: prod_eq_iff)
  have tr: "js_truthy (name ?blank) \<and> js_truthy (number ?blank)"
    by (simp add: ascii_def)
  from presence_check_is_truthiness [OF b, THEN conjunct2, THEN conjunct1] tr env
  have 2: "status (snd (snd (fill_image env_ok ?blank world0))) \<noteq> 400
      \<and> Composed (compose env_ok 1000 1400 (JStr (ascii '' '')) JUndefined)
          \<in> set (fst (snd (fill_image env_ok ?blank world0)))"
    by simp
  from 1 2 tr show ?thesis by simp
qed

text \<open>
  The handler of \<^verbatim>\<open>part_000\<close> and \<^verbatim>\<open>part_001\<close> answers
  \<^verbatim>\<open>{name: "", number: "5"}\<close> with 400 and does nothing else.
\<close>

lemma part_000_rejects_empty_name:
  "fill_image env_ok no_name world0 =
     (world0, [],
      \<lparr> status = 400,
        content = Json_status_message (ascii ''nok'') (ascii ''Name and number are required'') \<rparr>)"
  by (simp add: fill_image_def no_name_def)

text \<open>
  Claim C4 at \<^verbatim>\<open>{name: "", number: "5"}\<close>. The handler of \<^verbatim>\<open>index.js\<close> has no
  presence check: it composes, uploads and has the URL signed, the store refuses the
  empty name, and the answer is 500 with the text \<^verbatim>\<open>Internal Server Error\<close>; the
  uploaded object stays in the bucket.
\<close>

theorem index_js_accepts_empty_name:
  "fill_image_index env_ok no_name world0 =
     (world0\<lparr> bucket := [fileName 1700000000000 \<mapsto> compose env_ok 1000 1400 (JStr []) JUndefined],
              issued := [(ascii ''https://storage.googleapis.com/navid/hedayat/1.jpg?X-Goog-Signature=ab'',
                          fileName 1700000000000)] \<rparr>,
      [Composed (compose env_ok 1000 1400 (JStr []) JUndefined),
       Uploaded (fileName 1700000000000) (compose env_ok 1000 1400 (JStr []) JUndefined),
       Signed (fileName 1700000000000)
         (ascii ''https://storage.googleapis.com/navid/hedayat/1.jpg?X-Goog-Signature=ab'')],
      \<lparr> status = 500, content = Text (ascii ''Internal Server Error'') \<rparr>)"
  by (simp add: fill_image_index_def fill_image_steps_def SampleModel_save_def
      env_ok_def no_name_def world0_def Let_def)

lemma well_formed_url_not_Nil: "well_formed_url u \<Longrightarrow> u \<noteq> []"
  by (auto simp: well_formed_url_def)

lemma fill_image_answers_200:
  assumes "template e = Some (tw, th)" and "draws e" and "save_file e"
    and "signed_url e = Some u" and "u \<noteq> []"
    and "db_error e = None" and "cards w (new_oid e) = None"
    and "name b = JStr n" and "n \<noteq> []" and "number b = JStr m" and "m \<noteq> []"
  shows "fill_image e b w =
           (w\<lparr> bucket := (bucket w)(fileName (now e) \<mapsto> compose e tw th (name b) (twoNames b)),
               issued := (u, fileName (now e)) # issued w,
               cards := (cards w)(new_oid e \<mapsto>
                 \<lparr> card_id = new_oid e, card_name = n, card_number = m, card_imagePath = u \<rparr>) \<rparr>,
            [Composed (compose e tw th (name b) (twoNames b)),
             Uploaded (fileName (now e)) (compose e tw th (name b) (twoNames b)),
             Signed (fileName (now e)) u,
             Inserted \<lparr> card_id = new_oid e, card_name = n, card_number = m, card_imagePath = u \<rparr>],
            \<lparr> status = 200,
              content = Json_card
                \<lparr> card_id = new_oid e, card_name = n, card_number = m, card_imagePath = u \<rparr> \<rparr>)
         \<and> fill_image_index e b w = fill_image e b w"
  using assms
  by (simp add: fill_image_def fill_image_index_def fill_image_steps_def SampleModel_save_def Let_def)

text \<open>
  Claim C7. A POST /fill-image with a non-empty string \<open>name\<close> and \<open>number\<close> is
  answered with 200 when the services answer (both handlers, with the same result), and
  whenever it is answered with 200 the body is \<^verbatim>\<open>{card}\<close> with the record now stored
  under a new identifier; its name and number are the submitted ones, and its image path
  is the URL the storage service signed for the object uploaded in this request,
  well-formed as the service issues it.
\<close>

theorem fill_image_success:
  "((fill_image e b w = (w', t, r) \<or> fill_image_index e b w = (w', t, r))
      \<and> status r = 200 \<and> name b = JStr n \<and> number b = JStr m \<and> signs_urls e \<longrightarrow>
      (\<exists>c. content r = Json_card c \<and> cards w' (card_id c) = Some c \<and> cards w (card_id c) = None
           \<and> card_name c = n \<and> card_number c = m \<and> n \<noteq> [] \<and> m \<noteq> []
           \<and> signed_url e = Some (card_imagePath c) \<and> well_formed_url (card_imagePath c)
           \<and> (\<exists>buf. t = [Composed buf, Uploaded (fileName (now e)) buf,
                         Signed (fileName (now e)) (card_imagePath c), Inserted c]
                    \<and> bucket w' (fileName (now e)) = Some buf)))
   \<and> (template e = Some (tw, th) \<and> draws e \<and> save_file e \<and> signed_url e = Some u \<and> signs_urls e
        \<and> db_error e = None \<and> cards w (new_oid e) = None
        \<and> name b = JStr n \<and> n \<noteq> [] \<and> number b = JStr m \<and> m \<noteq> [] \<longrightarrow>
      (let card = \<lparr> card_id = new_oid e, card_name = n, card_number = m, card_imagePath = u \<rparr>;
           buf = compose e tw th (name b) (twoNames b);
           file = fileName (now e)
       in fill_image e b w =
            (w\<lparr> bucket := (bucket w)(file \<mapsto> buf), issued := (u, file) # issued w,
                cards := (cards w)(new_oid e \<mapsto> card) \<rparr>,
             [Composed buf, Uploaded file buf, Signed file u, Inserted card],
             \<lparr> status = 200, content = Json_card card \<rparr>)
          \<and> fill_image_index e b w = fill_image e b w
          \<and> well_formed_url (card_imagePath card)))"
proof (intro conjI impI)
  assume asm: "(fill_image e b w = (w', t, r) \<or> fill_image_index e b w = (w', t, r))
      \<and> status r = 200 \<and> name b = JStr n \<and> number b = JStr m \<and> signs_urls e"
  then have run: "fill_image e b w = (w', t, r) \<or> fill_image_index e b w = (w', t, r)"
    and ok: "status r = 200" and nm: "name b = JStr n" and num: "number b = JStr m"
    and contract: "signs_urls e"
    by simp_all
  from run ok have "t \<noteq> []"
    by (auto simp: fill_image_def fill_image_index_def fill_image_steps_def Let_def
        split: if_splits prod.splits sum.splits option.splits)
  from handler_steps [OF run this] ok obtain c
    where steps: "fill_image_steps e b w = (w', t, Inr c)" and body: "content r = Json_card c"
    by auto
  from steps_success [OF steps] nm num obtain tw th where
    facts: "signed_url e = Some (card_imagePath c)"
      "required_String e (JStr n) = Some (card_name c)"
      "required_String e (JStr m) = Some (card_number c)"
      "cards w (new_oid e) = None" "card_id c = new_oid e"
      "t = [Composed (compose e tw th (name b) (twoNames b)),
            Uploaded (fileName (now e)) (compose e tw th (name b) (twoNames b)),
            Signed (fileName (now e)) (card_imagePath c), Inserted c]"
      "w' = w\<lparr> bucket := (bucket w)(fileName (now e) \<mapsto> compose e tw th (name b) (twoNames b)),
                issued := (card_imagePath c, fileName (now e)) # issued w,
                cards := (cards w)(new_oid e \<mapsto> c) \<rparr>"
    by auto
  from facts(2,3) have names: "card_name c = n \<and> card_number c = m \<and> n \<noteq> [] \<and> m \<noteq> []"
    by (auto split: if_splits)
  from contract facts(1) have "well_formed_url (card_imagePath c)"
    by (simp add: signs_urls_def)
  with body names facts
  show "\<exists>c. content r = Json_card c \<and> cards w' (card_id c) = Some c \<and> cards w (card_id c) = None
           \<and> card_name c = n \<and> card_number c = m \<and> n \<noteq> [] \<and> m \<noteq> []
           \<and> signed_url e = Some (card_imagePath c) \<and> well_formed_url (card_imagePath c)
           \<and> (\<exists>buf. t = [Composed buf, Uploaded (fileName (now e)) buf,
                         Signed (fileName (now e)) (card_imagePath c), Inserted c]
                    \<and> bucket w' (fileName (now e)) = Some buf)"
    by simp
next
  assume asm: "template e = Some (tw, th) \<and> draws e \<and> save_file e \<and> signed_url e = Some u \<and> signs_urls e
        \<and> db_error e = None \<and> cards w (new_oid e) = None
        \<and> name b = JStr n \<and> n \<noteq> [] \<and> number b = JStr m \<and> m \<noteq> []"
  then have wf: "well_formed_url u"
    by (auto simp: signs_urls_def)
  then have "u \<noteq> []" by (rule well_formed_url_not_Nil)
  with asm fill_image_answers_200 [of e tw th u w b n m] wf
  show "let card = \<lparr> card_id = new_oid e, card_name = n, card_number = m, card_imagePath = u \<rparr>;
           buf = compose e tw th (name b) (twoNames b);
           file = fileName (now e)
       in fill_image e b w =
            (w\<lparr> bucket := (bucket w)(file \<mapsto> buf), issued := (u, file) # issued w,
                cards := (cards w)(new_oid e \<mapsto> card) \<rparr>,
             [Composed buf, Uploaded file buf, Signed file u, Inserted card],
             \<lparr> status = 200, content = Json_card card \<rparr>)
          \<and> fill_image_index e b w = fill_image e b w
          \<and> well_formed_url (card_imagePath card)"
    by (simp add: Let_def)
qed

lemma env_ok_signs_urls: "signs_urls env_ok"
  by (simp add: signs_urls_def env_ok_def well_formed_url_def ascii_def)

theorem fill_image_success_witness:
  "fill_image env_ok sara world0 =
     (sara_world,
      [Composed (compose env_ok 1000 1400 (JStr (ascii ''Sara'')) JUndefined),
       Uploaded (fileName 1700000000000) (compose env_ok 1000 1400 (JStr (ascii ''Sara'')) JUndefined),
       Signed (fileName 1700000000000) (card_imagePath sara_card),
       Inserted sara_card],
      \<lparr> status = 200, content = Json_card sara_card \<rparr>)
   \<and> fill_image_index env_ok sara world0 = fill_image env_ok sara world0
   \<and> cards sara_world (card_id sara_card) = Some sara_card
   \<and> card_name sara_card = ascii ''Sara'' \<and> card_number sara_card = ascii ''12''
   \<and> signed_url env_ok = Some (card_imagePath sara_card)
   \<and> well_formed_url (card_imagePath sara_card)"
proof -
  note total = fill_image_success [where e = env_ok and b = sara and w = world0
      and tw = 1000 and th = 1400 and n = "ascii ''Sara''" and m = "ascii ''12''"
      and u = "ascii ''https://storage.googleapis.com/navid/hedayat/1.jpg?X-Goog-Signature=ab''",
      THEN conjunct2]
  note partial = fill_image_success [where e = env_ok and b = sara and w = world0
      and w' = sara_world and n = "ascii ''Sara''" and m = "ascii ''12''"
      and r = "\<lparr> status = 200, content = Json_card sara_card \<rparr>"
      and t = "[Composed (compose env_ok 1000 1400 (JStr (ascii ''Sara'')) JUndefined),
       Uploaded (fileName 1700000000000) (compose env_ok 1000 1400 (JStr (ascii ''Sara'')) JUndefined),
       Signed (fileName 1700000000000) (card_imagePath sara_card),
       Inserted sara_card]", THEN conjunct1]
  have services: "template env_ok = Some (1000, 1400) \<and> draws env_ok \<and> save_file env_ok
      \<and> signed_url env_ok = Some (ascii ''https://storage.googleapis.com/navid/hedayat/1.jpg?X-Goog-Signature=ab'')
      \<and> db_error env_ok = None \<and> cards world0 (new_oid env_ok) = None"
    by (simp add: env_ok_def world0_def)
  have req: "name sara = JStr (ascii ''Sara'') \<and> ascii ''Sara'' \<noteq> []
      \<and> number sara = JStr (ascii ''12'') \<and> ascii ''12'' \<noteq> []"
    by (simp add: sara_def ascii_def)
  from total services req env_ok_signs_urls
  have a: "fill_image_index env_ok sara world0 = fill_image env_ok sara world0"
    by (simp add: Let_def)
  from partial run_sara req env_ok_signs_urls
  have b: "cards sara_world (card_id sara_card) = Some sara_card
      \<and> card_name sara_card = ascii ''Sara'' \<and> card_number sara_card = ascii ''12''
      \<and> signed_url env_ok = Some (card_imagePath sara_card)
      \<and> well_formed_url (card_imagePath sara_card)"
    by auto
  from a b run_sara show ?thesis by simp
qed

section \<open>Ordering of upload and record\<close>

lemma last_upload_append:
  "last_upload (h @ t) p = (case last_upload t p of Some b \<Rightarrow> Some b | None \<Rightarrow> last_upload h p)"
  by (induction h p rule: last_upload.induct) (auto split: option.splits)

lemma steps_bucket:
  "fill_image_steps e b w = (w', t, x) \<Longrightarrow>
     bucket w' p = (case last_upload t p of Some b \<Rightarrow> Some b | None \<Rightarrow> bucket w p)"
  by (auto simp: fill_image_steps_def SampleModel_save_def Let_def
      split: option.splits if_splits sum.splits prod.splits)

lemma fill_image_bucket:
  "fill_image e b w = (w', t, r) \<or> fill_image_index e b w = (w', t, r) \<Longrightarrow>
     bucket w' p = (case last_upload t p of Some b \<Rightarrow> Some b | None \<Rightarrow> bucket w p)"
  by (auto simp: fill_image_def fill_image_index_def split: if_splits prod.splits sum.splits
      dest: steps_bucket)

lemma delete_bucket:
  "delete_guest e i w = (w', t, r) \<or> delete_guest_index e i w = (w', t, r) \<Longrightarrow>
     bucket w' = bucket w \<and> last_upload t p = None \<and> (\<forall>j c. cards w' j = Some c \<longrightarrow> cards w j = Some c)"
  by (auto simp: delete_guest_def delete_guest_index_def findByIdAndDelete_def
      split: prod.splits sum.splits option.splits if_splits)

lemma bucket_is_last_upload: "reaches h w \<Longrightarrow> bucket w p = last_upload h p"
proof (induction arbitrary: p rule: reaches.induct)
  case start
  show ?case by (simp add: world0_def)
next
  case (post_fill_image h w e b w' t r)
  then show ?case using fill_image_bucket [of e b w w' t r p] by (simp add: last_upload_append split: option.splits)
next
  case (post_fill_image_index h w e b w' t r)
  then show ?case using fill_image_bucket [of e b w w' t r p] by (simp add: last_upload_append split: option.splits)
next
  case (delete_guests_list h w e i w' t r)
  then show ?case using delete_bucket [of e i w w' t r p] by (simp add: last_upload_append split: option.splits)
next
  case (delete_guests_list_index h w e i w' t r)
  then show ?case using delete_bucket [of e i w w' t r p] by (simp add: last_upload_append split: option.splits)
qed

lemma inserted_after_upload_append: "inserted_after_upload h c \<Longrightarrow> inserted_after_upload (h @ t) c"
  unfolding inserted_after_upload_def
proof -
  assume "\<exists>p buf h1 h2. h = h1 @ [Uploaded p buf, Signed p (card_imagePath c), Inserted c] @ h2"
  then obtain p buf h1 h2 where "h = h1 @ [Uploaded p buf, Signed p (card_imagePath c), Inserted c] @ h2"
    by blast
  then have "h @ t = h1 @ [Uploaded p buf, Signed p (card_imagePath c), Inserted c] @ (h2 @ t)"
    by simp
  then show "\<exists>p buf h1 h2. h @ t = h1 @ [Uploaded p buf, Signed p (card_imagePath c), Inserted c] @ h2"
    by blast
qed

lemma fill_image_cards:
  assumes "fill_image e b w = (w', t, r) \<or> fill_image_index e b w = (w', t, r)"
    and "cards w' j = Some c"
  shows "cards w j = Some c
         \<or> (\<exists>buf. t = [Composed buf, Uploaded (fileName (now e)) buf,
                       Signed (fileName (now e)) (card_imagePath c), Inserted c])"
proof (cases "Inserted c \<in> set t")
  case True
  from insert_after_upload [OF assms(1) True] show ?thesis by blast
next
  case False
  from assms(1) have "t = [] \<and> w' = w \<or> (\<exists>x. fill_image_steps e b w = (w', t, x))"
    by (auto simp: fill_image_def fill_image_index_def split: if_splits prod.splits sum.splits)
  then show ?thesis
  proof
    assume "t = [] \<and> w' = w"
    with assms(2) show ?thesis by simp
  next
    assume "\<exists>x. fill_image_steps e b w = (w', t, x)"
    then obtain x where steps: "fill_image_steps e b w = (w', t, x)" by blast
    show ?thesis
    proof (cases x)
      case (Inl f)
      with steps steps_failure have "cards w' = cards w" by blast
      with assms(2) show ?thesis by simp
    next
      case (Inr d)
      with steps have s: "fill_image_steps e b w = (w', t, Inr d)" by simp
      from steps_success [OF s] have t: "Inserted d \<in> set t"
        and w': "cards w' = (cards w)(new_oid e \<mapsto> d)" by auto
      from t False have "d \<noteq> c" by auto
      with w' assms(2) have "cards w j = Some c" by (auto split: if_splits)
      then show ?thesis ..
    qed
  qed
qed

lemma reaches_inserted_after_upload:
  "reaches h w \<Longrightarrow> cards w j = Some c \<Longrightarrow> inserted_after_upload h c"
proof (induction arbitrary: j c rule: reaches.induct)
  case start
  then show ?case by (simp add: world0_def)
next
  case (post_fill_image h w e b w' t r)
  from fill_image_cards [OF disjI1 [OF post_fill_image.hyps(2)] post_fill_image.prems]
  show ?case
  proof
    assume "cards w j = Some c"
    then show ?thesis using post_fill_image.IH inserted_after_upload_append by blast
  next
    assume "\<exists>buf. t = [Composed buf, Uploaded (fileName (now e)) buf,
                       Signed (fileName (now e)) (card_imagePath c), Inserted c]"
    then obtain buf where "t = [Composed buf, Uploaded (fileName (now e)) buf,
                       Signed (fileName (now e)) (card_imagePath c), Inserted c]" by blast
    then have "h @ t = (h @ [Composed buf]) @ [Uploaded (fileName (now e)) buf,
                       Signed (fileName (now e)) (card_imagePath c), Inserted c] @ []" by simp
    then show ?thesis unfolding inserted_after_upload_def by blast
  qed
next
  case (post_fill_image_index h w e b w' t r)
  from fill_image_cards [OF disjI2 [OF post_fill_image_index.hyps(2)] post_fill_image_index.prems]
  show ?case
  proof
    assume "cards w j = Some c"
    then show ?thesis using post_fill_image_index.IH inserted_after_upload_append by blast
  next
    assume "\<exists>buf. t = [Composed buf, Uploaded (fileName (now e)) buf,
                       Signed (fileName (now e)) (card_imagePath c), Inserted c]"
    then obtain buf where "t = [Composed buf, Uploaded (fileName (now e)) buf,
                       Signed (fileName (now e)) (card_imagePath c), Inserted c]" by blast
    then have "h @ t = (h @ [Composed buf]) @ [Uploaded (fileName (now e)) buf,
                       Signed (fileName (now e)) (card_imagePath c), Inserted c] @ []" by simp
    then show ?thesis unfolding inserted_after_upload_def by blast
  qed
next
  case (delete_guests_list h w e i w' t r)
  from delete_bucket [OF disjI1 [OF delete_guests_list.hyps(2)]] delete_guests_list.prems
  have "cards w j = Some c" by blast
  then show ?case using delete_guests_list.IH inserted_after_upload_append by blast
next
  case (delete_guests_list_index h w e i w' t r)
  from delete_bucket [OF disjI2 [OF delete_guests_list_index.hyps(2)]] delete_guests_list_index.prems
  have "cards w j = Some c" by blast
  then show ?case using delete_guests_list_index.IH inserted_after_upload_append by blast
qed

lemma reaches_created_after_upload:
  assumes "reaches h w" and "cards w j = Some c"
  shows "created_after_upload h w c"
proof -
  from reaches_inserted_after_upload [OF assms] obtain p buf h1 h2
    where h: "h = h1 @ [Uploaded p buf, Signed p (card_imagePath c), Inserted c] @ h2"
    unfolding inserted_after_upload_def by blast
  have "bucket w p = last_upload h p"
    using bucket_is_last_upload [OF assms(1)] .
  also have "\<dots> = (case last_upload h2 p of Some b \<Rightarrow> Some b | None \<Rightarrow> Some buf)"
    unfolding h by (simp add: last_upload_append split: option.splits)
  finally have "bucket w p \<noteq> None \<and> (last_upload h2 p = None \<longrightarrow> bucket w p = Some buf)"
    by (simp split: option.splits)
  with h have "h = h1 @ [Uploaded p buf, Signed p (card_imagePath c), Inserted c] @ h2
        \<and> bucket w p \<noteq> None
        \<and> (last_upload h2 p = None \<longrightarrow> bucket w p = Some buf)"
    by simp
  then show ?thesis
    unfolding created_after_upload_def by (intro exI)
qed

text \<open>The path determines the timestamp: two requests share a path only in the same millisecond.\<close>

lemma digit_inject:
  assumes "a < 10" and "b < 10" and "(0x30 + of_nat a :: code_unit) = 0x30 + of_nat b"
  shows "a = b"
proof -
  from assms(3) have "(of_nat a :: code_unit) = of_nat b" by simp
  then have "take_bit 16 a = take_bit 16 b"
    by (simp add: word_of_nat_eq_iff)
  moreover from assms(1,2) have "a < 2 ^ 16" and "b < 2 ^ 16" by simp_all
  ultimately show ?thesis by (simp add: take_bit_nat_eq_self)
qed

lemma decimal_not_Nil: "decimal n \<noteq> []"
  by (subst decimal.simps) simp

lemma decimal_inject: "decimal n = decimal m \<Longrightarrow> n = m"
proof (induction n arbitrary: m rule: decimal.induct)
  case (1 n)
  show ?case
  proof (cases "n < 10")
    case True
    then have n: "decimal n = [0x30 + of_nat n]" by (subst decimal.simps) simp
    show ?thesis
    proof (cases "m < 10")
      case m: True
      then have "decimal m = [0x30 + of_nat m]" by (subst decimal.simps) simp
      with n "1.prems" have "(0x30 + of_nat n :: code_unit) = 0x30 + of_nat m" by simp
      with True m show ?thesis by (rule digit_inject)
    next
      case False
      then have "decimal m = decimal (m div 10) @ [0x30 + of_nat (m mod 10)]"
        by (subst decimal.simps) simp
      with n "1.prems" decimal_not_Nil [of "m div 10"] show ?thesis by (cases "decimal (m div 10)") simp_all
    qed
  next
    case False
    then have n: "decimal n = decimal (n div 10) @ [0x30 + of_nat (n mod 10)]"
      by (subst decimal.simps) simp
    show ?thesis
    proof (cases "m < 10")
      case True
      then have "decimal m = [0x30 + of_nat m]" by (subst decimal.simps) simp
      with n "1.prems" decimal_not_Nil [of "n div 10"] show ?thesis by (cases "decimal (n div 10)") simp_all
    next
      case m: False
      then have "decimal m = decimal (m div 10) @ [0x30 + of_nat (m mod 10)]"
        by (subst decimal.simps) simp
      with n "1.prems" have eq: "decimal (n div 10) = decimal (m div 10)"
        and d: "(0x30 + of_nat (n mod 10) :: code_unit) = 0x30 + of_nat (m mod 10)"
        by simp_all
      from "1.IH" [OF False eq] have "n div 10 = m div 10" .
      moreover have "n mod 10 = m mod 10"
        by (rule digit_inject [OF _ _ d]) simp_all
      ultimately show ?thesis by (metis div_mult_mod_eq)
    qed
  qed
qed

lemma fileName_inject: "fileName s = fileName t \<Longrightarrow> s = t"
  by (simp add: fileName_def decimal_inject)

lemma other_timestamp_keeps_object:
  assumes "fill_image e b w = (w', t, r) \<or> fill_image_index e b w = (w', t, r)"
    and "now e \<noteq> n"
  shows "bucket w' (fileName n) = bucket w (fileName n)"
proof -
  from assms(2) have ne: "fileName (now e) \<noteq> fileName n"
    using fileName_inject by blast
  from assms(1) have "w' = w \<or> (\<exists>x. fill_image_steps e b w = (w', t, x))"
    by (auto simp: fill_image_def fill_image_index_def split: if_splits prod.splits sum.splits)
  then show ?thesis
  proof
    assume "w' = w"
    then show ?thesis by simp
  next
    assume "\<exists>x. fill_image_steps e b w = (w', t, x)"
    then obtain x where "fill_image_steps e b w = (w', t, x)" by blast
    with ne show ?thesis
      by (auto simp: fill_image_steps_def SampleModel_save_def Let_def
          split: option.splits if_splits sum.splits prod.splits)
  qed
qed

lemma run_ali:
  "fill_image (env_ok\<lparr> new_oid := 2 \<rparr>) ali sara_world =
     (collision_world,
      [Composed (compose env_ok 1000 1400 (JStr (ascii ''Ali'')) JUndefined),
       Uploaded (fileName 1700000000000) (compose env_ok 1000 1400 (JStr (ascii ''Ali'')) JUndefined),
       Signed (fileName 1700000000000) (card_imagePath ali_card),
       Inserted ali_card],
      \<lparr> status = 200, content = Json_card ali_card \<rparr>)"
  by (simp add: fill_image_def fill_image_steps_def SampleModel_save_def env_ok_def ali_def
      sara_world_def sara_card_def collision_world_def ali_card_def Let_def ascii_def compose_def
      fun_upd_twist)

lemma reaches_sara: "reaches
     [Composed (compose env_ok 1000 1400 (JStr (ascii ''Sara'')) JUndefined),
      Uploaded (fileName 1700000000000) (compose env_ok 1000 1400 (JStr (ascii ''Sara'')) JUndefined),
      Signed (fileName 1700000000000) (card_imagePath sara_card),
      Inserted sara_card] sara_world"
  using reaches.post_fill_image [OF reaches.start run_sara] by simp

lemma reaches_collision: "reaches collision_history collision_world"
  using reaches.post_fill_image [OF reaches_sara run_ali] by (simp add: collision_history_def)

text \<open>
  Claim C3, as amended. In every run of a fill-image handler that creates a record, the
  effects are the composition, the upload, the signing and the insertion, in this order,
  so the object is in the bucket before the record exists. In every reachable state the
  image path of every record was signed for a path to which an object had been uploaded
  before the record was created, and the bucket still holds an object there: that object,
  unless a later upload went to the same path; a request with another timestamp leaves
  the path alone. When the database rejects the write after the upload and the signing,
  the collection is unchanged, the object stays in the bucket, and the answer is 500.
\<close>

theorem upload_precedes_record:
  "((fill_image e b w = (w', t, r) \<or> fill_image_index e b w = (w', t, r)) \<and> Inserted c \<in> set t \<longrightarrow>
      (\<exists>buf. t = [Composed buf, Uploaded (fileName (now e)) buf,
                  Signed (fileName (now e)) (card_imagePath c), Inserted c]
             \<and> bucket w' (fileName (now e)) = Some buf
             \<and> (card_imagePath c, fileName (now e)) \<in> set (issued w')
             \<and> cards w (card_id c) = None \<and> cards w' (card_id c) = Some c))
   \<and> (reaches h v \<and> cards v j = Some d \<longrightarrow> created_after_upload h v d)
   \<and> ((fill_image e b w = (w', t, r) \<or> fill_image_index e b w = (w', t, r)) \<and> now e \<noteq> n \<longrightarrow>
        bucket w' (fileName n) = bucket w (fileName n))
   \<and> (template e = Some (tw, th) \<and> draws e \<and> save_file e \<and> signed_url e = Some u
        \<and> db_error e = Some m \<longrightarrow>
      (let buf = compose e tw th (name b) (twoNames b);
           file = fileName (now e);
           w2 = w\<lparr> bucket := (bucket w)(file \<mapsto> buf), issued := (u, file) # issued w \<rparr>;
           effects = [Composed buf, Uploaded file buf, Signed file u]
       in fill_image_index e b w =
            (w2, effects, \<lparr> status = 500, content = Text (ascii ''Internal Server Error'') \<rparr>)
          \<and> (js_truthy (name b) \<and> js_truthy (number b) \<longrightarrow>
               fill_image e b w =
                 (w2, effects,
                  \<lparr> status = 500,
                    content = Json_status_message (ascii ''nok'') (ascii ''Failed to create image'') \<rparr>))
          \<and> cards w2 = cards w \<and> bucket w2 file = Some buf))"
proof (intro conjI impI)
  assume "(fill_image e b w = (w', t, r) \<or> fill_image_index e b w = (w', t, r)) \<and> Inserted c \<in> set t"
  then show "\<exists>buf. t = [Composed buf, Uploaded (fileName (now e)) buf,
                  Signed (fileName (now e)) (card_imagePath c), Inserted c]
             \<and> bucket w' (fileName (now e)) = Some buf
             \<and> (card_imagePath c, fileName (now e)) \<in> set (issued w')
             \<and> cards w (card_id c) = None \<and> cards w' (card_id c) = Some c"
    using insert_after_upload by blast
next
  assume "reaches h v \<and> cards v j = Some d"
  then show "created_after_upload h v d"
    using reaches_created_after_upload by blast
next
  assume "(fill_image e b w = (w', t, r) \<or> fill_image_index e b w = (w', t, r)) \<and> now e \<noteq> n"
  then show "bucket w' (fileName n) = bucket w (fileName n)"
    using other_timestamp_keeps_object by blast
next
  assume "template e = Some (tw, th) \<and> draws e \<and> save_file e \<and> signed_url e = Some u
        \<and> db_error e = Some m"
  then have "template e = Some (tw, th)" "draws e" "save_file e" "signed_url e = Some u"
    "db_error e = Some m" by simp_all
  from orphan_after_failed_write [OF this, of b w]
  show "let buf = compose e tw th (name b) (twoNames b);
           file = fileName (now e);
           w2 = w\<lparr> bucket := (bucket w)(file \<mapsto> buf), issued := (u, file) # issued w \<rparr>;
           effects = [Composed buf, Uploaded file buf, Signed file u]
       in fill_image_index e b w =
            (w2, effects, \<lparr> status = 500, content = Text (ascii ''Internal Server Error'') \<rparr>)
          \<and> (js_truthy (name b) \<and> js_truthy (number b) \<longrightarrow>
               fill_image e b w =
                 (w2, effects,
                  \<lparr> status = 500,
                    content = Json_status_message (ascii ''nok'') (ascii ''Failed to create image'') \<rparr>))
          \<and> cards w2 = cards w \<and> bucket w2 file = Some buf"
    by (simp add: Let_def fill_image_def fill_image_index_def)
qed

theorem upload_precedes_record_witness:
  "reaches collision_history collision_world
   \<and> created_after_upload collision_history collision_world sara_card
   \<and> bucket sara_world (fileName (now env_ok)) \<noteq> None
   \<and> cards sara_world (card_id sara_card) = Some sara_card
   \<and> bucket collision_world (fileName 5) = bucket sara_world (fileName 5)
   \<and> fst (snd (fill_image env_db_down sara world0)) =
       [Composed (compose env_db_down 1000 1400 (JStr (ascii ''Sara'')) JUndefined),
        Uploaded (fileName 1700000000000) (compose env_db_down 1000 1400 (JStr (ascii ''Sara'')) JUndefined),
        Signed (fileName 1700000000000) (card_imagePath sara_card)]
   \<and> status (snd (snd (fill_image env_db_down sara world0))) = 500
   \<and> cards (fst (fill_image env_db_down sara world0)) = cards world0
   \<and> bucket (fst (fill_image env_db_down sara world0)) (fileName 1700000000000) \<noteq> None"
proof -
  note thm1 = upload_precedes_record [where e = env_ok and b = sara and w = world0 and w' = sara_world
      and c = sara_card and h = collision_history and v = collision_world and j = 1 and d = sara_card
      and r = "\<lparr> status = 200, content = Json_card sara_card \<rparr>"
      and t = "[Composed (compose env_ok 1000 1400 (JStr (ascii ''Sara'')) JUndefined),
       Uploaded (fileName 1700000000000) (compose env_ok 1000 1400 (JStr (ascii ''Sara'')) JUndefined),
       Signed (fileName 1700000000000) (card_imagePath sara_card),
       Inserted sara_card]"]
  note thm2 = upload_precedes_record [where e = env_db_down and b = sara and w = world0
      and tw = 1000 and th = 1400 and m = "ascii ''connection timed out''"
      and u = "ascii ''https://storage.googleapis.com/navid/hedayat/1.jpg?X-Goog-Signature=ab''"]
  note thm3 = upload_precedes_record [where e = "env_ok\<lparr> new_oid := 2 \<rparr>" and b = ali
      and w = sara_world and w' = collision_world and n = 5
      and r = "\<lparr> status = 200, content = Json_card ali_card \<rparr>"
      and t = "[Composed (compose env_ok 1000 1400 (JStr (ascii ''Ali'')) JUndefined),
       Uploaded (fileName 1700000000000) (compose env_ok 1000 1400 (JStr (ascii ''Ali'')) JUndefined),
       Signed (fileName 1700000000000) (card_imagePath ali_card),
       Inserted ali_card]"]
  have down: "template env_db_down = Some (1000, 1400) \<and> draws env_db_down \<and> save_file env_db_down
      \<and> signed_url env_db_down = Some (ascii ''https://storage.googleapis.com/navid/hedayat/1.jpg?X-Goog-Signature=ab'')
      \<and> db_error env_db_down = Some (ascii ''connection timed out'')"
    by (simp add: env_db_down_def env_ok_def)
  have truthy: "js_truthy (name sara) \<and> js_truthy (number sara)"
    by (simp add: sara_def ascii_def)
  have stored: "cards collision_world 1 = Some sara_card"
    by (simp add: collision_world_def)
  have other: "now (env_ok\<lparr> new_oid := 2 \<rparr>) \<noteq> 5"
    by (simp add: env_ok_def)
  from thm1 [THEN conjunct1] run_sara
  have a: "bucket sara_world (fileName (now env_ok)) \<noteq> None
      \<and> cards sara_world (card_id sara_card) = Some sara_card"
    by auto
  from thm1 [THEN conjunct2, THEN conjunct1] reaches_collision stored
  have b: "created_after_upload collision_history collision_world sara_card" by blast
  from thm3 [THEN conjunct2, THEN conjunct2, THEN conjunct1] run_ali other
  have c: "bucket collision_world (fileName 5) = bucket sara_world (fileName 5)" by blast
  from thm2 [THEN conjunct2, THEN conjunct2, THEN conjunct2] down truthy
  have d: "fst (snd (fill_image env_db_down sara world0)) =
       [Composed (compose env_db_down 1000 1400 (JStr (ascii ''Sara'')) JUndefined),
        Uploaded (fileName 1700000000000) (compose env_db_down 1000 1400 (JStr (ascii ''Sara'')) JUndefined),
        Signed (fileName 1700000000000) (card_imagePath sara_card)]
   \<and> status (snd (snd (fill_image env_db_down sara world0))) = 500
   \<and> cards (fst (fill_image env_db_down sara world0)) = cards world0
   \<and> bucket (fst (fill_image env_db_down sara world0)) (fileName 1700000000000) \<noteq> None"
    by (simp add: Let_def sara_def sara_card_def env_db_down_def env_ok_def)
  from reaches_collision a b c d show ?thesis by simp
qed

text \<open>
  Claim C3 as stated fails when two requests share a millisecond: the path comes from the
  timestamp alone, the second upload replaces the object of the first, and the image
  path of the first record then refers to an object uploaded after that record was
  created.
\<close>

theorem overwritten_object_counterexample:
  "reaches collision_history collision_world
   \<and> cards collision_world 1 = Some sara_card
   \<and> \<not> object_predates_record collision_history collision_world sara_card"
proof -
  have "\<not> object_predates_record collision_history collision_world sara_card"
    unfolding object_predates_record_def collision_history_def
    by (auto simp: Cons_eq_append_conv sara_card_def ali_card_def ascii_def)
  moreover have "cards collision_world 1 = Some sara_card"
    by (simp add: collision_world_def)
  ultimately show ?thesis using reaches_collision by simp
qed

section \<open>Properties of the handlers that take an identifier\<close>

lemma get_image_malformed:
  "parse_oid e guestId = None \<Longrightarrow>
     get_image e guestId w =
       \<lparr> status = 400, content = Json_status_message (ascii ''nok'') (ascii ''Invalid guest ID'') \<rparr>"
  by (simp add: get_image_def isValid_def)

lemma get_image_absent:
  "parse_oid e guestId = Some i \<Longrightarrow> db_error e = None \<Longrightarrow> cards w i = None \<Longrightarrow>
     get_image e guestId w =
       \<lparr> status = 404,
         content = Json_status_message (ascii ''not found'') (ascii ''Guest or image not found'') \<rparr>"
  by (simp add: get_image_def isValid_def get_image_steps_def findById_def)

lemma delete_guest_malformed:
  "parse_oid e sampleId = None \<Longrightarrow>
     delete_guest e sampleId w =
       (w, [], \<lparr> status = 500,
                 content = Json_status_message (ascii ''nok'') (ascii ''Failed to delete guest'') \<rparr>)
     \<and> delete_guest_index e sampleId w =
       (w, [], \<lparr> status = 500,
                 content = Json_status_message (ascii ''nok'') (cast_error e sampleId) \<rparr>)"
  by (simp add: delete_guest_def delete_guest_index_def findByIdAndDelete_def)

lemma get_image_001_malformed:
  "parse_oid e guestId = None \<Longrightarrow>
     get_image_001 e guestId w =
       \<lparr> status = 500, content = Json_status_message (ascii ''nok'') (ascii ''Failed to fetch image'') \<rparr>"
  by (simp add: get_image_001_def findById_def)

text \<open>
  Claim C5 at the malformed identifier \<^verbatim>\<open>abc\<close>. GET /get-image (in \<^verbatim>\<open>part_000\<close>)
  answers 400 with \<^verbatim>\<open>Invalid guest ID\<close>, distinct from the 404 it gives for a
  well-formed identifier that is absent; DELETE /guests_list has no such check, the cast
  of the identifier throws, and the answer is 500 with \<^verbatim>\<open>Failed to delete guest\<close>.
\<close>

theorem delete_malformed_id_is_500:
  "parse_oid env_ok (ascii ''abc'') = None
   \<and> delete_guest env_ok (ascii ''abc'') world0 =
       (world0, [],
        \<lparr> status = 500,
          content = Json_status_message (ascii ''nok'') (ascii ''Failed to delete guest'') \<rparr>)
   \<and> get_image env_ok (ascii ''abc'') world0 =
       \<lparr> status = 400, content = Json_status_message (ascii ''nok'') (ascii ''Invalid guest ID'') \<rparr>
   \<and> get_image env_ok (ascii ''000000000000000000000001'') world0 =
       \<lparr> status = 404,
         content = Json_status_message (ascii ''not found'') (ascii ''Guest or image not found'') \<rparr>"
proof -
  have bad: "parse_oid env_ok (ascii ''abc'') = None"
    by (simp add: env_ok_def hex24_def ascii_def)
  have good: "parse_oid env_ok (ascii ''000000000000000000000001'') = Some 1"
    by (simp add: env_ok_def hex24_def ascii_def hex_value_def)
  have up: "db_error env_ok = None" and none: "cards world0 1 = None"
    by (simp_all add: env_ok_def world0_def)
  from bad delete_guest_malformed [OF bad] get_image_malformed [OF bad]
    get_image_absent [OF good up none]
  show ?thesis by simp
qed

text \<open>
  Claim C6. For DELETE /guests_list with a well-formed identifier, when the database
  performs the operation: if the collection has no record under the identifier, the
  answer is 404 with \<^verbatim>\<open>{status: "not found", message: "Record not found"}\<close> and
  nothing changes; if it has one, the answer is 200 with the status, the message and the
  deleted record, and the record is removed (the other records and the bucket stay).
  The handlers of the three source files agree here.
\<close>

theorem delete_by_id:
  assumes "parse_oid e sampleId = Some i" and "db_error e = None"
  shows "(cards w i = None \<longrightarrow>
            delete_guest e sampleId w =
              (w, [], \<lparr> status = 404,
                        content = Json_status_message (ascii ''not found'') (ascii ''Record not found'') \<rparr>)
            \<and> delete_guest_index e sampleId w = delete_guest e sampleId w)
       \<and> (cards w i = Some deletedSample \<longrightarrow>
            delete_guest e sampleId w =
              (w\<lparr> cards := (cards w)(i := None) \<rparr>, [Removed deletedSample],
               \<lparr> status = 200,
                 content = Json_deleted (ascii ''success'') (ascii ''Record deleted successfully'')
                             deletedSample \<rparr>)
            \<and> delete_guest_index e sampleId w = delete_guest e sampleId w
            \<and> cards (fst (delete_guest e sampleId w)) i = None
            \<and> (\<forall>j. j \<noteq> i \<longrightarrow> cards (fst (delete_guest e sampleId w)) j = cards w j)
            \<and> bucket (fst (delete_guest e sampleId w)) = bucket w)"
  using assms
  by (simp add: delete_guest_def delete_guest_index_def findByIdAndDelete_def)

lemma run_delete_sara:
  "parse_oid env_ok (ascii ''000000000000000000000001'') = Some 1
   \<and> parse_oid env_ok (ascii ''000000000000000000000002'') = Some 2
   \<and> db_error env_ok = None \<and> cards sara_world 1 = Some sara_card \<and> cards sara_world 2 = None"
  by (simp add: env_ok_def hex24_def ascii_def hex_value_def sara_world_def)

theorem delete_by_id_witness:
  "delete_guest env_ok (ascii ''000000000000000000000002'') sara_world =
     (sara_world, [],
      \<lparr> status = 404,
        content = Json_status_message (ascii ''not found'') (ascii ''Record not found'') \<rparr>)
   \<and> delete_guest env_ok (ascii ''000000000000000000000001'') sara_world =
       (sara_world\<lparr> cards := (cards sara_world)(1 := None) \<rparr>, [Removed sara_card],
        \<lparr> status = 200,
          content = Json_deleted (ascii ''success'') (ascii ''Record deleted successfully'') sara_card \<rparr>)
   \<and> cards (fst (delete_guest env_ok (ascii ''000000000000000000000001'') sara_world)) 1 = None"
proof -
  note facts = run_delete_sara
  from facts have p1: "parse_oid env_ok (ascii ''000000000000000000000001'') = Some 1"
    and p2: "parse_oid env_ok (ascii ''000000000000000000000002'') = Some 2"
    and up: "db_error env_ok = None"
    and here: "cards sara_world 1 = Some sara_card" and gone: "cards sara_world 2 = None"
    by simp_all
  from delete_by_id [OF p2 up, of sara_world, THEN conjunct1] gone
  have a: "delete_guest env_ok (ascii ''000000000000000000000002'') sara_world =
     (sara_world, [],
      \<lparr> status = 404,
        content = Json_status_message (ascii ''not found'') (ascii ''Record not found'') \<rparr>)"
    by simp
  from delete_by_id [OF p1 up, of sara_world sara_card, THEN conjunct2] here
  have b: "delete_guest env_ok (ascii ''000000000000000000000001'') sara_world =
       (sara_world\<lparr> cards := (cards sara_world)(1 := None) \<rparr>, [Removed sara_card],
        \<lparr> status = 200,
          content = Json_deleted (ascii ''success'') (ascii ''Record deleted successfully'') sara_card \<rparr>)
      \<and> cards (fst (delete_guest env_ok (ascii ''000000000000000000000001'') sara_world)) 1 = None"
    by simp
  from a b show ?thesis by simp
qed

end
